theory Spec2Isabelle
  imports Complex_Main
begin

section \<open>The AURA-MF demo backend: a 2D thermal solver for a PV panel\<close>

text \<open>
  A shallow embedding of \<^verbatim>\<open>docs/assets/js/aura_demo_backend.py\<close>. Python floats are
  modelled as exact reals, Python ints as \<open>int\<close>, a 2D numpy array as a list of rows.
  Exceptions are values of the type \<open>error\<close>.

  A real stands for a finite float and its arithmetic neither rounds nor overflows. The
  floats of the source also hold NaN and the infinities, which the model does not have:
  \<^verbatim>\<open>float()\<close> accepts them, the comparisons of the route are false on NaN, and
  \<^verbatim>\<open>np.clip\<close> returns NaN on a NaN cell. The statements about whole runs are
  therefore made for parameters in the documented ranges of the dataclass
  (\<open>valid_parameters\<close> below), where every quantity of a pass of the time loop is bounded
  (\<open>flux_magnitude\<close>, \<open>flux_magnitude_in_every_pass\<close>) and the float
  computation stays finite.
\<close>

subsection \<open>SimulationParameters\<close>

record SimulationParameters =
  nx :: int
  ny :: int
  solar_irradiance :: real
  ambient_temperature :: real
  wind_speed :: real
  cell_efficiency :: real
  thermal_conductivity :: real
  absorptivity :: real
  emissivity :: real
  dt :: real
  n_steps :: int

text \<open>
  The dataclass has no \<^verbatim>\<open>__post_init__\<close>: its generated constructor only stores the
  fields. The route passes the seven physical fields; the other four keep their defaults.
\<close>

definition SimulationParameters_init ::
  "real \<Rightarrow> real \<Rightarrow> real \<Rightarrow> real \<Rightarrow> real \<Rightarrow> real \<Rightarrow> real \<Rightarrow> SimulationParameters" where
  "SimulationParameters_init si ta ws ce tc ab em =
     \<lparr>nx = 25, ny = 25, solar_irradiance = si, ambient_temperature = ta, wind_speed = ws,
      cell_efficiency = ce, thermal_conductivity = tc, absorptivity = ab, emissivity = em,
      dt = 0.1, n_steps = 100\<rparr>"

definition SimulationParameters_default :: SimulationParameters where
  "SimulationParameters_default = SimulationParameters_init 1000 300 1 0.20 130 0.95 0.90"

subsection \<open>Arrays\<close>

type_synonym grid = "real list list"

datatype error = ValueError | TypeError | AttributeError

text \<open>
  \<^verbatim>\<open>np.clip(a, lo, hi)\<close> is \<^verbatim>\<open>minimum(maximum(a, lo), hi)\<close>, here on a finite cell
  (numpy returns NaN on a NaN cell).
\<close>

definition np_clip :: "real \<Rightarrow> real \<Rightarrow> real \<Rightarrow> real" where
  "np_clip a lo hi = min (max a lo) hi"

text \<open>Elementwise operations on arrays of one shape.\<close>

definition gmap :: "(real \<Rightarrow> real) \<Rightarrow> grid \<Rightarrow> grid" where
  "gmap f A = map (map f) A"

definition gmap2 :: "(real \<Rightarrow> real \<Rightarrow> real) \<Rightarrow> grid \<Rightarrow> grid \<Rightarrow> grid" where
  "gmap2 f A B = map2 (map2 f) A B"

text \<open>\<^verbatim>\<open>np.ones((ny, nx)) * v\<close> and \<^verbatim>\<open>np.zeros((ny, nx))\<close>.\<close>

definition full :: "nat \<Rightarrow> nat \<Rightarrow> real \<Rightarrow> grid" where
  "full m n v = replicate m (replicate n v)"

text \<open>\<^verbatim>\<open>np.linspace(0, 1, n)\<close>: \<open>n\<close> evenly spaced points, the single point \<open>0\<close> when \<open>n = 1\<close>.\<close>

definition linspace01 :: "nat \<Rightarrow> real list" where
  "linspace01 n = map (\<lambda>i. if n = 1 then 0 else real i / real (n - 1)) [0..<n]"

text \<open>\<^verbatim>\<open>np.meshgrid(x, y)\<close>: \<open>X[i][j] = x[j]\<close> and \<open>Y[i][j] = y[i]\<close>, both of shape \<open>(len y, len x)\<close>.\<close>

definition meshgrid :: "real list \<Rightarrow> real list \<Rightarrow> grid \<times> grid" where
  "meshgrid x y = (map (\<lambda>_. x) y, map (\<lambda>yi. map (\<lambda>_. yi) x) y)"

text \<open>
  \<^verbatim>\<open>np.pad(T, 1, mode='edge')\<close>: one copy of the border on each side of each axis.
  numpy raises ValueError when an axis to extend is empty.
\<close>

definition pad1 :: "'a list \<Rightarrow> 'a list" where
  "pad1 xs = hd xs # xs @ [last xs]"

definition pad_edge :: "grid \<Rightarrow> error + grid" where
  "pad_edge T = (if T = [] \<or> hd T = [] then Inl ValueError else Inr (pad1 (map pad1 T)))"

text \<open>The slices \<^verbatim>\<open>[1:-1]\<close>, \<^verbatim>\<open>[2:]\<close> and \<^verbatim>\<open>[:-2]\<close> of one axis.\<close>

definition slice_inner :: "'a list \<Rightarrow> 'a list" where
  "slice_inner xs = butlast (tl xs)"

definition slice_from2 :: "'a list \<Rightarrow> 'a list" where
  "slice_from2 xs = drop 2 xs"

definition slice_to_m2 :: "'a list \<Rightarrow> 'a list" where
  "slice_to_m2 xs = take (length xs - 2) xs"

subsection \<open>SimplifiedPhysicsSolver\<close>

record SimplifiedPhysicsSolver =
  params :: SimulationParameters
  temperature :: grid
  power_generation :: grid

definition STEFAN_BOLTZMANN :: real where
  "STEFAN_BOLTZMANN = 5.67 / 10 ^ 8"

definition cell_area :: real where
  "cell_area = 0.01"

definition dx :: real where
  "dx = 0.1"

definition dy :: real where
  "dy = 0.1"

text \<open>\<^verbatim>\<open>__init__\<close>: numpy raises ValueError for a negative dimension.\<close>

definition SimplifiedPhysicsSolver_init :: "SimulationParameters \<Rightarrow> error + SimplifiedPhysicsSolver" where
  "SimplifiedPhysicsSolver_init p =
     (if nx p < 0 \<or> ny p < 0 then Inl ValueError
      else Inr \<lparr>params = p,
                temperature = gmap (\<lambda>one. one * ambient_temperature p) (full (nat (ny p)) (nat (nx p)) 1),
                power_generation = full (nat (ny p)) (nat (nx p)) 0\<rparr>)"

definition edge_factor :: "real \<Rightarrow> real \<Rightarrow> real" where
  "edge_factor X Y =
     1.0 - 0.1 * (exp (-10 * X) + exp (-10 * (1 - X)) + exp (-10 * Y) + exp (-10 * (1 - Y)))"

definition compute_solar_absorption :: "SimulationParameters \<Rightarrow> grid" where
  "compute_solar_absorption p =
     (let Q_solar = solar_irradiance p * absorptivity p * cell_area;
          x = linspace01 (nat (nx p));
          y = linspace01 (nat (ny p));
          (X, Y) = meshgrid x y;
          edge = gmap2 edge_factor X Y
      in gmap (\<lambda>e. Q_solar * e) edge)"

definition compute_electrical_generation :: "SimulationParameters \<Rightarrow> grid \<Rightarrow> grid" where
  "compute_electrical_generation p T =
     (let T_ref = 298.15;
          beta = 0.004;
          eta_T = gmap (\<lambda>t. cell_efficiency p * (1.0 - beta * (t - T_ref))) T;
          eta_T = gmap (\<lambda>e. np_clip e 0.05 0.30) eta_T;
          Q_solar = compute_solar_absorption p
      in gmap2 (\<lambda>e q. e * q) eta_T Q_solar)"

text \<open>
  \<^verbatim>\<open>np.sqrt\<close> of a negative float is NaN (a warning, no exception); \<open>None\<close> stands for it.
\<close>

definition np_sqrt :: "real \<Rightarrow> real option" where
  "np_sqrt v = (if v < 0 then None else Some (sqrt v))"

text \<open>
  The coefficient of \<^verbatim>\<open>compute_convective_cooling\<close>. Python's \<^verbatim>\<open>max(5.0, h)\<close> returns \<open>h\<close>
  when \<open>h > 5.0\<close> and \<open>5.0\<close> otherwise, so also when \<open>h\<close> is NaN.
\<close>

definition h_conv :: "SimulationParameters \<Rightarrow> real" where
  "h_conv p =
     (let v = wind_speed p
      in case np_sqrt v of
           None \<Rightarrow> 5.0
         | Some r \<Rightarrow> (let h = 10.45 - v + 10.0 * r in if h > 5.0 then h else 5.0))"

definition compute_convective_cooling :: "SimulationParameters \<Rightarrow> grid \<Rightarrow> grid" where
  "compute_convective_cooling p T =
     gmap (\<lambda>t. h_conv p * cell_area * (t - ambient_temperature p)) T"

definition compute_radiative_cooling :: "SimulationParameters \<Rightarrow> grid \<Rightarrow> grid" where
  "compute_radiative_cooling p T =
     (let T_sky = ambient_temperature p - 10.0
      in gmap (\<lambda>t. emissivity p * STEFAN_BOLTZMANN * cell_area * (t ^ 4 - T_sky ^ 4)) T)"

definition compute_conduction :: "SimulationParameters \<Rightarrow> grid \<Rightarrow> error + grid" where
  "compute_conduction p T =
     (let k = thermal_conductivity p;
          rho = 2330.0;
          c_p = 700.0;
          alpha = k / (rho * c_p)
      in case pad_edge T of
           Inl e \<Rightarrow> Inl e
         | Inr T_pad \<Rightarrow>
             (let centre = gmap (\<lambda>c. 2 * c) (map slice_inner (slice_inner T_pad));
                  d2T_dx2 = gmap (\<lambda>d. d / dx ^ 2)
                    (gmap2 (+) (gmap2 (-) (map slice_from2 (slice_inner T_pad)) centre)
                       (map slice_to_m2 (slice_inner T_pad)));
                  d2T_dy2 = gmap (\<lambda>d. d / dy ^ 2)
                    (gmap2 (+) (gmap2 (-) (map slice_inner (slice_from2 T_pad)) centre)
                       (map slice_inner (slice_to_m2 T_pad)));
                  laplacian = gmap2 (+) d2T_dx2 d2T_dy2
              in Inr (gmap (\<lambda>l. alpha * l * rho * c_p * cell_area * dx) laplacian)))"

text \<open>
  One pass of the body of the time loop of \<^verbatim>\<open>run_simulation\<close>. The two history lists
  of the source are local to the call and never read, so the model leaves them out.
\<close>

definition time_step :: "SimplifiedPhysicsSolver \<Rightarrow> error + SimplifiedPhysicsSolver" where
  "time_step s =
     (let p = params s;
          Q_solar = compute_solar_absorption p;
          P_elec = compute_electrical_generation p (temperature s);
          Q_conv = compute_convective_cooling p (temperature s);
          Q_rad = compute_radiative_cooling p (temperature s)
      in case compute_conduction p (temperature s) of
           Inl e \<Rightarrow> Inl e
         | Inr Q_cond \<Rightarrow>
             (let Q_net = gmap2 (+)
                    (gmap2 (-) (gmap2 (-) (gmap (\<lambda>q. (1.0 - cell_efficiency p) * q) Q_solar) Q_conv) Q_rad)
                    Q_cond;
                  mass = 2330.0 * cell_area * 0.002;
                  c_p = 700.0;
                  dT = gmap (\<lambda>q. q * dt p / (mass * c_p)) Q_net;
                  T_new = gmap2 (+) (temperature s) dT
              in Inr (s\<lparr>power_generation := P_elec,
                        temperature := gmap (\<lambda>t. np_clip t 200.0 450.0) T_new\<rparr>)))"

fun time_integration :: "nat \<Rightarrow> SimplifiedPhysicsSolver \<Rightarrow> error + SimplifiedPhysicsSolver" where
  "time_integration 0 s = Inr s"
| "time_integration (Suc n) s =
     (case time_step s of Inl e \<Rightarrow> Inl e | Inr s' \<Rightarrow> time_integration n s')"

record results =
  temperature_field :: grid
  power_field :: grid
  temperature_mean :: real
  temperature_max :: real
  temperature_min :: real
  power_total :: real
  power_mean :: real
  efficiency_avg :: real
  runtime_ms :: real

definition np_mean :: "grid \<Rightarrow> real" where
  "np_mean A = sum_list (concat A) / real (length (concat A))"

text \<open>
  The summary. \<^verbatim>\<open>np.max\<close> of an empty array raises ValueError. The two readings of the
  clock, \<open>start_time\<close> and \<open>end_time\<close> in seconds, are inputs of the model.
\<close>

definition summary :: "SimplifiedPhysicsSolver \<Rightarrow> real \<Rightarrow> real \<Rightarrow> error + results" where
  "summary s start_time end_time =
     (if concat (temperature s) = [] then Inl ValueError
      else Inr \<lparr>temperature_field = temperature s,
                power_field = power_generation s,
                temperature_mean = np_mean (temperature s),
                temperature_max = Max (set (concat (temperature s))),
                temperature_min = Min (set (concat (temperature s))),
                power_total = sum_list (concat (power_generation s)),
                power_mean = np_mean (power_generation s),
                efficiency_avg = np_mean (gmap2 (/) (power_generation s)
                   (gmap (\<lambda>q. q + 1 / 10 ^ 10) (compute_solar_absorption (params s)))),
                runtime_ms = (end_time - start_time) * 1000\<rparr>)"

text \<open>\<^verbatim>\<open>range(n_steps)\<close> is empty for \<open>n_steps \<le> 0\<close>.\<close>

definition run_simulation :: "SimplifiedPhysicsSolver \<Rightarrow> real \<Rightarrow> real \<Rightarrow> error + results" where
  "run_simulation s start_time end_time =
     (case time_integration (nat (n_steps (params s))) s of
        Inl e \<Rightarrow> Inl e
      | Inr s' \<Rightarrow> summary s' start_time end_time)"

subsection \<open>The route /api/simulate\<close>

text \<open>
  A value of the request's JSON object, as \<^verbatim>\<open>float()\<close> sees it: \<open>JNum r\<close> is a value
  that \<^verbatim>\<open>float()\<close> turns into the finite number \<open>r\<close> (a number, a numeric string, a
  boolean), \<open>JText\<close> a string that is no number (ValueError), \<open>JNull\<close> a \<^verbatim>\<open>null\<close>, list or
  object (TypeError). A value that \<^verbatim>\<open>float()\<close> turns into NaN or an infinity has no
  counterpart here.
\<close>

datatype jvalue = JNum real | JText | JNull

fun py_float :: "jvalue \<Rightarrow> error + real" where
  "py_float (JNum r) = Inr r"
| "py_float JText = Inl ValueError"
| "py_float JNull = Inl TypeError"

definition get_float :: "(string \<rightharpoonup> jvalue) \<Rightarrow> string \<Rightarrow> real \<Rightarrow> error + real" where
  "get_float data k d = (case data k of None \<Rightarrow> Inr d | Some v \<Rightarrow> py_float v)"

definition bind_err :: "error + 'a \<Rightarrow> ('a \<Rightarrow> error + 'b) \<Rightarrow> error + 'b" where
  "bind_err m f = (case m of Inl e \<Rightarrow> Inl e | Inr a \<Rightarrow> f a)"

text \<open>Lines 332 to 343: the body \<^verbatim>\<open>None\<close> stands for a request whose JSON is no object.\<close>

definition parse_params :: "(string \<rightharpoonup> jvalue) option \<Rightarrow> error + SimulationParameters" where
  "parse_params body =
     (case body of
        None \<Rightarrow> Inl AttributeError
      | Some data \<Rightarrow>
          bind_err (get_float data ''solar_irradiance'' 1000.0) (\<lambda>si.
          bind_err (get_float data ''ambient_temperature'' 300.0) (\<lambda>ta.
          bind_err (get_float data ''wind_speed'' 1.0) (\<lambda>ws.
          bind_err (get_float data ''cell_efficiency'' 0.20) (\<lambda>ce.
          bind_err (get_float data ''thermal_conductivity'' 130.0) (\<lambda>tc.
          bind_err (get_float data ''absorptivity'' 0.95) (\<lambda>ab.
          bind_err (get_float data ''emissivity'' 0.90) (\<lambda>em.
          Inr (SimulationParameters_init si ta ws ce tc ab em)))))))))"

text \<open>Lines 346 to 353: the first failed check gives the message of the 400 response.\<close>

definition validate_ranges :: "SimulationParameters \<Rightarrow> string option" where
  "validate_ranges p =
     (if \<not> (800 \<le> solar_irradiance p \<and> solar_irradiance p \<le> 1200)
        then Some ''Solar irradiance out of range [800-1200]''
      else if \<not> (280 \<le> ambient_temperature p \<and> ambient_temperature p \<le> 330)
        then Some ''Ambient temperature out of range [280-330]''
      else if \<not> (0 \<le> wind_speed p \<and> wind_speed p \<le> 10)
        then Some ''Wind speed out of range [0-10]''
      else if \<not> (0.10 \<le> cell_efficiency p \<and> cell_efficiency p \<le> 0.30)
        then Some ''Cell efficiency out of range [0.10-0.30]''
      else None)"

text \<open>
  The response: 200 with the results and the parameters, 400 with a message, or 500 when
  an exception reached the handler. The rendering of the picture is outside the model.
\<close>

datatype response =
    Success (response_results: results) (response_parameters: SimulationParameters)
  | BadRequest (response_error: string)
  | ServerError

text \<open>
  The calls the route makes on the way to its response, in the order of the source: the
  constructor of \<^verbatim>\<open>SimulationParameters\<close> (line 335, once its seven arguments are
  evaluated), the constructor of \<^verbatim>\<open>SimplifiedPhysicsSolver\<close> (line 356) and its method
  \<^verbatim>\<open>run_simulation\<close> (line 357).
\<close>

datatype call = Call_SimulationParameters | Call_SimplifiedPhysicsSolver | Call_run_simulation

text \<open>The route with the list of the calls it made.\<close>

definition api_simulate_traced ::
  "(string \<rightharpoonup> jvalue) option \<Rightarrow> real \<Rightarrow> real \<Rightarrow> response \<times> call list" where
  "api_simulate_traced body start_time end_time =
     (case parse_params body of
        Inl e \<Rightarrow> (ServerError, [])
      | Inr p \<Rightarrow>
          (let constructed = [Call_SimulationParameters]
           in case validate_ranges p of
                Some msg \<Rightarrow> (BadRequest msg, constructed)
              | None \<Rightarrow>
                  (let built = constructed @ [Call_SimplifiedPhysicsSolver]
                   in case SimplifiedPhysicsSolver_init p of
                        Inl e \<Rightarrow> (ServerError, built)
                      | Inr solver \<Rightarrow>
                          (let ran = built @ [Call_run_simulation]
                           in case run_simulation solver start_time end_time of
                                Inl e \<Rightarrow> (ServerError, ran)
                              | Inr res \<Rightarrow> (Success res p, ran)))))"

text \<open>The response of the route.\<close>

definition api_simulate :: "(string \<rightharpoonup> jvalue) option \<Rightarrow> real \<Rightarrow> real \<Rightarrow> response" where
  "api_simulate body start_time end_time = fst (api_simulate_traced body start_time end_time)"

subsection \<open>Predicates and auxiliary definitions of the statements\<close>

text \<open>The documented ranges of the four fields the route checks.\<close>

definition in_range :: "SimulationParameters \<Rightarrow> bool" where
  "in_range p \<longleftrightarrow>
     800 \<le> solar_irradiance p \<and> solar_irradiance p \<le> 1200 \<and>
     280 \<le> ambient_temperature p \<and> ambient_temperature p \<le> 330 \<and>
     0 \<le> wind_speed p \<and> wind_speed p \<le> 10 \<and>
     0.10 \<le> cell_efficiency p \<and> cell_efficiency p \<le> 0.30"

text \<open>
  The parameters the data model calls valid: a grid with cells and each of the seven
  physical fields in the range its declaration documents (lines 52 to 58). The route
  checks the first four of these ranges only.
\<close>

definition valid_parameters :: "SimulationParameters \<Rightarrow> bool" where
  "valid_parameters p \<longleftrightarrow>
     0 < nx p \<and> 0 < ny p \<and>
     800 \<le> solar_irradiance p \<and> solar_irradiance p \<le> 1200 \<and>
     280 \<le> ambient_temperature p \<and> ambient_temperature p \<le> 330 \<and>
     0 \<le> wind_speed p \<and> wind_speed p \<le> 10 \<and>
     0.10 \<le> cell_efficiency p \<and> cell_efficiency p \<le> 0.30 \<and>
     100 \<le> thermal_conductivity p \<and> thermal_conductivity p \<le> 200 \<and>
     0.85 \<le> absorptivity p \<and> absorptivity p \<le> 0.98 \<and>
     0.80 \<le> emissivity p \<and> emissivity p \<le> 0.95"

text \<open>An array of shape \<open>(m, n)\<close>, and a bound on all its cells.\<close>

definition shape :: "nat \<Rightarrow> nat \<Rightarrow> grid \<Rightarrow> bool" where
  "shape m n A \<longleftrightarrow> length A = m \<and> (\<forall>r \<in> set A. length r = n)"

definition all_cells :: "(real \<Rightarrow> bool) \<Rightarrow> grid \<Rightarrow> bool" where
  "all_cells P A \<longleftrightarrow> (\<forall>r \<in> set A. \<forall>t \<in> set r. P t)"

text \<open>
  The 5-point Laplacian in the words of the design: a neighbour outside the array counts as
  the cell itself.
\<close>

definition neighbour_laplacian :: "grid \<Rightarrow> nat \<Rightarrow> nat \<Rightarrow> real" where
  "neighbour_laplacian T i j =
     (let m = length T; n = length (T ! i);
          east = T ! i ! (if j + 1 < n then j + 1 else j);
          west = T ! i ! (if 0 < j then j - 1 else j);
          south = T ! (if i + 1 < m then i + 1 else i) ! j;
          north = T ! (if 0 < i then i - 1 else i) ! j
      in (east - 2 * T ! i ! j + west) / dx ^ 2 + (south - 2 * T ! i ! j + north) / dy ^ 2)"

text \<open>The array \<^verbatim>\<open>compute_conduction\<close> returns on a non-empty array, with the slices of \<open>[1:-1]\<close> resolved.\<close>

definition conduction_field :: "SimulationParameters \<Rightarrow> grid \<Rightarrow> grid" where
  "conduction_field p T =
     gmap (\<lambda>l. thermal_conductivity p / (2330 * 700) * l * 2330 * 700 * cell_area * dx)
       (gmap2 (+)
          (gmap (\<lambda>d. d / dx ^ 2)
             (gmap2 (+) (gmap2 (-) (map slice_from2 (slice_inner (pad1 (map pad1 T)))) (gmap (\<lambda>c. 2 * c) T))
                (map slice_to_m2 (slice_inner (pad1 (map pad1 T))))))
          (gmap (\<lambda>d. d / dy ^ 2)
             (gmap2 (+) (gmap2 (-) (tl T @ [last T]) (gmap (\<lambda>c. 2 * c) T)) (hd T # butlast T))))"

text \<open>A solver over \<open>p\<close> whose arrays have the shape \<open>(ny, nx)\<close>.\<close>

definition solver_ok :: "SimulationParameters \<Rightarrow> SimplifiedPhysicsSolver \<Rightarrow> bool" where
  "solver_ok p s \<longleftrightarrow>
     params s = p \<and> shape (nat (ny p)) (nat (nx p)) (temperature s) \<and>
     shape (nat (ny p)) (nat (nx p)) (power_generation s)"

text \<open>
  The array \<open>Q_net\<close> of \<^verbatim>\<open>run_simulation\<close> and the solver after one pass of the loop, on
  arrays for which \<^verbatim>\<open>compute_conduction\<close> returns.
\<close>

definition net_flux :: "SimulationParameters \<Rightarrow> grid \<Rightarrow> grid" where
  "net_flux p T =
     gmap2 (+)
       (gmap2 (-)
          (gmap2 (-) (gmap (\<lambda>q. (1.0 - cell_efficiency p) * q) (compute_solar_absorption p))
             (compute_convective_cooling p T))
          (compute_radiative_cooling p T))
       (conduction_field p T)"

definition stepped :: "SimplifiedPhysicsSolver \<Rightarrow> SimplifiedPhysicsSolver" where
  "stepped s =
     s\<lparr>power_generation := compute_electrical_generation (params s) (temperature s),
       temperature := gmap (\<lambda>t. np_clip t 200.0 450.0)
         (gmap2 (+) (temperature s)
            (gmap (\<lambda>q. q * dt (params s) / (2330.0 * cell_area * 0.002 * 700.0))
               (net_flux (params s) (temperature s))))\<rparr>"

text \<open>A request that names \<open>solar_irradiance\<close> only; the other fields take their defaults.\<close>

definition body_irradiance :: "real \<Rightarrow> (string \<rightharpoonup> jvalue) option" where
  "body_irradiance v = Some [''solar_irradiance'' \<mapsto> JNum v]"

text \<open>
  A request with a solar irradiance outside its range and an emissivity that is no number.
\<close>

definition body_text_emissivity :: "(string \<rightharpoonup> jvalue) option" where
  "body_text_emissivity = Some [''solar_irradiance'' \<mapsto> JNum 1500, ''emissivity'' \<mapsto> JText]"

text \<open>A request that sets \<open>absorptivity\<close> only, a field the route does not check.\<close>

definition body_absorptivity :: "real \<Rightarrow> (string \<rightharpoonup> jvalue) option" where
  "body_absorptivity v = Some [''absorptivity'' \<mapsto> JNum v]"

text \<open>The parameters the route builds from a request that sets \<open>absorptivity\<close> to \<open>-1\<close>.\<close>

definition params_negative_absorptivity :: SimulationParameters where
  "params_negative_absorptivity = SimulationParameters_init 1000 300 1 0.20 130 (- 1) 0.90"

section \<open>Arrays: shapes and cells\<close>

lemma length_gmap: "length (gmap f A) = length A"
  by (simp add: gmap_def)

lemma length_gmap2: "length (gmap2 f A B) = min (length A) (length B)"
  by (simp add: gmap2_def)

lemma shape_gmap: "shape m n A \<Longrightarrow> shape m n (gmap f A)"
  by (auto simp: shape_def gmap_def)

lemma shape_gmap2: "shape m n A \<Longrightarrow> shape m n B \<Longrightarrow> shape m n (gmap2 f A B)"
proof -
  assume A: "shape m n A" and B: "shape m n B"
  have "length (map2 f a b) = n" if "(a, b) \<in> set (zip A B)" for a b
  proof -
    from that have "a \<in> set A" "b \<in> set B"
      by (auto dest: set_zip_leftD set_zip_rightD)
    with A B show ?thesis by (simp add: shape_def)
  qed
  with A B show ?thesis
    by (auto simp: shape_def gmap2_def)
qed

lemma shape_nth: "shape m n A \<Longrightarrow> i < m \<Longrightarrow> length (A ! i) = n"
  by (auto simp: shape_def)

lemma shape_length: "shape m n A \<Longrightarrow> length A = m"
  by (simp add: shape_def)

lemma cell_gmap: "shape m n A \<Longrightarrow> i < m \<Longrightarrow> j < n \<Longrightarrow> gmap f A ! i ! j = f (A ! i ! j)"
  by (simp add: shape_def gmap_def)

lemma cell_gmap2:
  "shape m n A \<Longrightarrow> shape m n B \<Longrightarrow> i < m \<Longrightarrow> j < n \<Longrightarrow>
   gmap2 f A B ! i ! j = f (A ! i ! j) (B ! i ! j)"
  by (simp add: shape_def gmap2_def)

lemma all_cells_gmap: "all_cells P (gmap f A) \<longleftrightarrow> all_cells (\<lambda>t. P (f t)) A"
  by (auto simp: all_cells_def gmap_def)

lemma all_cells_nth:
  "shape m n A \<Longrightarrow> all_cells P A \<longleftrightarrow> (\<forall>i<m. \<forall>j<n. P (A ! i ! j))"
  unfolding all_cells_def shape_def
  by (metis in_set_conv_nth nth_mem)

lemma shape_full: "shape m n (full m n v)"
  by (simp add: shape_def full_def)

lemma cell_full: "i < m \<Longrightarrow> j < n \<Longrightarrow> full m n v ! i ! j = v"
  by (simp add: full_def)

lemma all_cells_full: "P v \<Longrightarrow> all_cells P (full m n v)"
  by (simp add: all_cells_def full_def)

lemma length_linspace01: "length (linspace01 n) = n"
  by (simp add: linspace01_def)

lemma shape_solar: "shape (nat (ny p)) (nat (nx p)) (compute_solar_absorption p)"
proof -
  have X: "shape (nat (ny p)) (nat (nx p)) (map (\<lambda>_. linspace01 (nat (nx p))) (linspace01 (nat (ny p))))"
    by (auto simp: shape_def length_linspace01)
  have Y: "shape (nat (ny p)) (nat (nx p))
     (map (\<lambda>yi. map (\<lambda>_. yi) (linspace01 (nat (nx p)))) (linspace01 (nat (ny p))))"
    by (auto simp: shape_def length_linspace01)
  show ?thesis
    unfolding compute_solar_absorption_def meshgrid_def Let_def prod.case
    by (intro shape_gmap shape_gmap2 X Y)
qed

section \<open>Padding, slices and conduction\<close>

lemma length_pad1: "length (pad1 xs) = length xs + 2"
  by (simp add: pad1_def)

lemma inner_pad1: "slice_inner (pad1 xs) = xs"
  by (simp add: slice_inner_def pad1_def butlast_append)

lemma from2_pad1: "xs \<noteq> [] \<Longrightarrow> slice_from2 (pad1 xs) = tl xs @ [last xs]"
  by (cases xs) (simp_all add: slice_from2_def pad1_def)

lemma to_m2_pad1: "xs \<noteq> [] \<Longrightarrow> slice_to_m2 (pad1 xs) = hd xs # butlast xs"
proof (cases xs)
  case Nil
  assume "xs \<noteq> []"
  with Nil show ?thesis by simp
next
  case (Cons a list)
  have "take (length list) ((a # list) @ [last (a # list)]) = butlast (a # list)"
    by (simp add: butlast_conv_take del: append_Cons)
  with Cons show ?thesis
    by (simp add: slice_to_m2_def pad1_def)
qed

lemma nth_from2_pad1:
  assumes "j < length xs"
  shows "slice_from2 (pad1 xs) ! j = xs ! (if j + 1 < length xs then j + 1 else j)"
proof -
  from assms have ne: "xs \<noteq> []" by auto
  show ?thesis
  proof (cases "j + 1 < length xs")
    case True
    then have "j < length (tl xs)" by simp
    with True show ?thesis
      by (simp add: from2_pad1 [OF ne] nth_append nth_tl del: length_tl)
  next
    case False
    with assms have "j = length xs - 1" by simp
    with False ne show ?thesis
      by (simp add: from2_pad1 [OF ne] nth_append last_conv_nth)
  qed
qed

lemma nth_to_m2_pad1:
  assumes "j < length xs"
  shows "slice_to_m2 (pad1 xs) ! j = xs ! (if 0 < j then j - 1 else j)"
proof -
  from assms have ne: "xs \<noteq> []" by auto
  show ?thesis
  proof (cases j)
    case 0
    with ne show ?thesis by (simp add: to_m2_pad1 hd_conv_nth)
  next
    case (Suc k)
    with assms ne show ?thesis by (simp add: to_m2_pad1 nth_butlast)
  qed
qed

lemma length_from2_pad1: "xs \<noteq> [] \<Longrightarrow> length (slice_from2 (pad1 xs)) = length xs"
  by (simp add: from2_pad1)

lemma length_to_m2_pad1: "xs \<noteq> [] \<Longrightarrow> length (slice_to_m2 (pad1 xs)) = length xs"
  by (simp add: to_m2_pad1)

lemma shape_nonempty: "shape m n T \<Longrightarrow> 0 < m \<Longrightarrow> 0 < n \<Longrightarrow> T \<noteq> [] \<and> hd T \<noteq> []"
  by (cases T) (auto simp: shape_def)

lemma shape_rows_nonempty: "shape m n T \<Longrightarrow> 0 < n \<Longrightarrow> r \<in> set T \<Longrightarrow> r \<noteq> []"
  by (auto simp: shape_def)

lemma pad_edge_ok: "shape m n T \<Longrightarrow> 0 < m \<Longrightarrow> 0 < n \<Longrightarrow> pad_edge T = Inr (pad1 (map pad1 T))"
  using shape_nonempty [of m n T] by (simp add: pad_edge_def)

lemma east_shape:
  "shape m n T \<Longrightarrow> 0 < n \<Longrightarrow> shape m n (map slice_from2 (slice_inner (pad1 (map pad1 T))))"
  by (auto simp: inner_pad1 shape_def length_from2_pad1)

lemma west_shape:
  "shape m n T \<Longrightarrow> 0 < n \<Longrightarrow> shape m n (map slice_to_m2 (slice_inner (pad1 (map pad1 T))))"
  by (auto simp: inner_pad1 shape_def length_to_m2_pad1)

lemma centre_eq: "map slice_inner (slice_inner (pad1 (map pad1 T))) = T"
  by (simp add: inner_pad1 o_def map_idI)

lemma south_eq: "T \<noteq> [] \<Longrightarrow> map slice_inner (slice_from2 (pad1 (map pad1 T))) = tl T @ [last T]"
  by (simp add: from2_pad1 inner_pad1 o_def last_map map_tl [symmetric] map_idI)

lemma north_eq: "T \<noteq> [] \<Longrightarrow> map slice_inner (slice_to_m2 (pad1 (map pad1 T))) = hd T # butlast T"
  by (simp add: to_m2_pad1 inner_pad1 o_def hd_map map_butlast [symmetric] map_idI)



lemma south_shape: "shape m n T \<Longrightarrow> 0 < m \<Longrightarrow> shape m n (tl T @ [last T])"
  by (cases T) (auto simp: shape_def)

lemma north_shape: "shape m n T \<Longrightarrow> 0 < m \<Longrightarrow> shape m n (hd T # butlast T)"
  by (cases T) (auto simp: shape_def dest: in_set_butlastD)

lemma south_nth:
  "i < length T \<Longrightarrow> (tl T @ [last T]) ! i = T ! (if i + 1 < length T then i + 1 else i)"
proof -
  assume i: "i < length T"
  then have "T \<noteq> []" by auto
  then have "tl T @ [last T] = slice_from2 (pad1 T)" by (simp add: from2_pad1)
  with i show ?thesis by (simp only: nth_from2_pad1)
qed

lemma north_nth:
  "i < length T \<Longrightarrow> (hd T # butlast T) ! i = T ! (if 0 < i then i - 1 else i)"
proof -
  assume i: "i < length T"
  then have "T \<noteq> []" by auto
  then have "hd T # butlast T = slice_to_m2 (pad1 T)" by (simp add: to_m2_pad1)
  with i show ?thesis by (simp only: nth_to_m2_pad1)
qed

lemma east_cell:
  assumes "shape m n T" "i < m" "j < n"
  shows "map slice_from2 (slice_inner (pad1 (map pad1 T))) ! i ! j
         = T ! i ! (if j + 1 < length (T ! i) then j + 1 else j)"
  using assms by (simp add: inner_pad1 shape_def nth_from2_pad1)

lemma west_cell:
  assumes "shape m n T" "i < m" "j < n"
  shows "map slice_to_m2 (slice_inner (pad1 (map pad1 T))) ! i ! j
         = T ! i ! (if 0 < j then j - 1 else j)"
  using assms by (simp add: inner_pad1 shape_def nth_to_m2_pad1)

lemma compute_conduction_ok:
  assumes "shape m n T" "0 < m" "0 < n"
  shows "compute_conduction p T = Inr (conduction_field p T)"
proof -
  from assms have "T \<noteq> []" by (simp add: shape_nonempty)
  then show ?thesis
    unfolding compute_conduction_def Let_def conduction_field_def
    by (simp add: pad_edge_ok [OF assms] centre_eq south_eq north_eq)
qed

lemma shape_conduction_field:
  assumes "shape m n T" "0 < m" "0 < n"
  shows "shape m n (conduction_field p T)"
  unfolding conduction_field_def
  by (intro shape_gmap shape_gmap2 east_shape west_shape south_shape north_shape assms)

lemma conduction_field_cell:
  assumes sh: "shape m n T" and m: "0 < m" and n: "0 < n" and i: "i < m" and j: "j < n"
  shows "conduction_field p T ! i ! j =
     thermal_conductivity p / (2330 * 700) * neighbour_laplacian T i j * 2330 * 700 * cell_area * dx"
proof -
  note shapes = shape_gmap shape_gmap2 east_shape [OF sh n] west_shape [OF sh n]
    south_shape [OF sh m] north_shape [OF sh m] sh
  have len: "length T = m" "length (T ! i) = n"
    using sh i by (simp_all add: shape_def)
  have S: "(tl T @ [last T]) ! i ! j = T ! (if i + 1 < m then i + 1 else i) ! j"
    using south_nth [of i T] i len by simp
  have N: "(hd T # butlast T) ! i ! j = T ! (if 0 < i then i - 1 else i) ! j"
    using north_nth [of i T] i len by simp
  have E: "map slice_from2 (slice_inner (pad1 (map pad1 T))) ! i ! j
         = T ! i ! (if j + 1 < n then j + 1 else j)"
    using east_cell [OF sh i j] len by simp
  have W: "map slice_to_m2 (slice_inner (pad1 (map pad1 T))) ! i ! j
         = T ! i ! (if 0 < j then j - 1 else j)"
    by (rule west_cell [OF sh i j])
  show ?thesis
    unfolding conduction_field_def neighbour_laplacian_def Let_def len
    by (simp only: cell_gmap [OF _ i j] cell_gmap2 [OF _ _ i j] shapes S N E W)
qed

section \<open>The time loop\<close>

lemma time_step_ok:
  assumes "solver_ok p s" "0 < ny p" "0 < nx p"
  shows "time_step s = Inr (stepped s)"
proof -
  from assms have "compute_conduction (params s) (temperature s)
      = Inr (conduction_field (params s) (temperature s))"
    by (intro compute_conduction_ok [of "nat (ny p)" "nat (nx p)"]) (simp_all add: solver_ok_def)
  then show ?thesis
    by (simp add: time_step_def stepped_def net_flux_def Let_def)
qed

lemma shape_electrical:
  "shape (nat (ny p)) (nat (nx p)) T \<Longrightarrow> shape (nat (ny p)) (nat (nx p)) (compute_electrical_generation p T)"
  unfolding compute_electrical_generation_def Let_def
  by (intro shape_gmap shape_gmap2 shape_solar)

lemma shape_convective: "shape m n T \<Longrightarrow> shape m n (compute_convective_cooling p T)"
  unfolding compute_convective_cooling_def by (rule shape_gmap)

lemma shape_radiative: "shape m n T \<Longrightarrow> shape m n (compute_radiative_cooling p T)"
  unfolding compute_radiative_cooling_def Let_def by (rule shape_gmap)

lemma shape_net_flux:
  assumes "shape (nat (ny p)) (nat (nx p)) T" "0 < ny p" "0 < nx p"
  shows "shape (nat (ny p)) (nat (nx p)) (net_flux p T)"
  unfolding net_flux_def using assms
  by (intro shape_gmap shape_gmap2 shape_solar shape_convective shape_radiative
      shape_conduction_field) simp_all

lemma stepped_ok:
  assumes "solver_ok p s" "0 < ny p" "0 < nx p"
  shows "solver_ok p (stepped s)"
proof -
  from assms have p: "params s = p" and T: "shape (nat (ny p)) (nat (nx p)) (temperature s)"
    by (simp_all add: solver_ok_def)
  have "shape (nat (ny p)) (nat (nx p)) (temperature (stepped s))"
    unfolding stepped_def p using T assms(2,3)
    by (simp del: One_nat_def) (intro shape_gmap shape_gmap2 shape_net_flux)
  moreover have "shape (nat (ny p)) (nat (nx p)) (power_generation (stepped s))"
    unfolding stepped_def p using T by (simp add: shape_electrical)
  moreover have "params (stepped s) = p"
    by (simp add: stepped_def p)
  ultimately show ?thesis by (simp add: solver_ok_def)
qed

lemma stepped_bounds: "all_cells (\<lambda>t. 200 \<le> t \<and> t \<le> 450) (temperature (stepped s))"
proof -
  have "all_cells (\<lambda>t. 200 \<le> np_clip t 200 450 \<and> np_clip t 200 450 \<le> 450) A" for A
    by (simp add: all_cells_def np_clip_def)
  then show ?thesis
    by (simp add: stepped_def all_cells_gmap)
qed

lemma time_integration_invariant:
  assumes ok: "solver_ok p s" and dims: "0 < ny p" "0 < nx p"
    and init: "I s"
    and step: "\<And>s. solver_ok p s \<Longrightarrow> I s \<Longrightarrow> I (stepped s)"
  shows "\<exists>s'. time_integration k s = Inr s' \<and> solver_ok p s' \<and> I s'"
  using ok init
proof (induction k arbitrary: s)
  case 0
  then show ?case by simp
next
  case (Suc k)
  have "time_step s = Inr (stepped s)"
    using Suc.prems(1) dims by (rule time_step_ok)
  moreover have "solver_ok p (stepped s)" "I (stepped s)"
    using Suc.prems dims by (auto intro: stepped_ok step)
  ultimately show ?case
    using Suc.IH [of "stepped s"] by simp
qed

lemma time_integration_last:
  assumes ok: "solver_ok p s" and dims: "0 < ny p" "0 < nx p"
  shows "\<exists>s'. time_integration k s = Inr s' \<and> solver_ok p s' \<and>
           time_integration (Suc k) s = Inr (stepped s')"
  using ok
proof (induction k arbitrary: s)
  case 0
  then show ?case using dims by (simp add: time_step_ok)
next
  case (Suc k)
  have st: "time_step s = Inr (stepped s)"
    using Suc.prems dims by (rule time_step_ok)
  have "solver_ok p (stepped s)"
    using Suc.prems dims by (rule stepped_ok)
  from Suc.IH [OF this] obtain s' where
    "time_integration k (stepped s) = Inr s'" "solver_ok p s'"
    "time_integration (Suc k) (stepped s) = Inr (stepped s')" by blast
  with st show ?case by simp
qed

lemma init_ok:
  assumes "0 \<le> ny p" "0 \<le> nx p"
  shows "\<exists>s0. SimplifiedPhysicsSolver_init p = Inr s0 \<and> solver_ok p s0 \<and>
     temperature s0 = full (nat (ny p)) (nat (nx p)) (ambient_temperature p) \<and>
     power_generation s0 = full (nat (ny p)) (nat (nx p)) 0"
  using assms
  by (simp add: SimplifiedPhysicsSolver_init_def solver_ok_def shape_full shape_gmap)
     (simp add: gmap_def full_def)

lemma shape_concat_nonempty: "shape m n T \<Longrightarrow> 0 < m \<Longrightarrow> 0 < n \<Longrightarrow> concat T \<noteq> []"
  by (cases T) (auto simp: shape_def)

lemma summary_ok:
  assumes "solver_ok p s" "0 < ny p" "0 < nx p"
  shows "\<exists>r. summary s t0 t1 = Inr r \<and> temperature_field r = temperature s \<and>
     power_field r = power_generation s"
proof -
  from assms have "concat (temperature s) \<noteq> []"
    by (intro shape_concat_nonempty [of "nat (ny p)" "nat (nx p)"]) (simp_all add: solver_ok_def)
  then show ?thesis by (simp add: summary_def)
qed

section \<open>Properties of the solver\<close>

lemma run_simulation_ok:
  assumes ok: "solver_ok p s" and dims: "0 < ny p" "0 < nx p"
    and init: "I s"
    and step: "\<And>s. solver_ok p s \<Longrightarrow> I s \<Longrightarrow> I (stepped s)"
  shows "\<exists>s' r. time_integration (nat (n_steps p)) s = Inr s' \<and> solver_ok p s' \<and> I s' \<and>
           run_simulation s t0 t1 = Inr r \<and> temperature_field r = temperature s' \<and>
           power_field r = power_generation s'"
proof -
  from time_integration_invariant [OF ok dims, of I, OF init step]
  obtain s' where s': "time_integration (nat (n_steps p)) s = Inr s'" "solver_ok p s'" "I s'"
    by blast
  from summary_ok [OF s'(2) dims] obtain r where
    "summary s' t0 t1 = Inr r" "temperature_field r = temperature s'"
    "power_field r = power_generation s'" by blast
  moreover from ok have "params s = p" by (simp add: solver_ok_def)
  ultimately show ?thesis using s' by (auto simp: run_simulation_def)
qed

lemma in_range_ambient_bounds:
  "in_range p \<Longrightarrow> all_cells (\<lambda>t. 200 \<le> t \<and> t \<le> 450) (full m n (ambient_temperature p))"
  by (rule all_cells_full) (simp add: in_range_def)

lemma default_in_range: "in_range SimulationParameters_default"
  by (simp add: in_range_def SimulationParameters_default_def SimulationParameters_init_def)

lemma default_dims: "0 < nx SimulationParameters_default" "0 < ny SimulationParameters_default"
  by (simp_all add: SimulationParameters_default_def SimulationParameters_init_def)

text \<open>
  C8: with \<open>n_steps = 0\<close> (and a non-empty grid) the run returns the initial fields: every
  temperature cell is \<open>ambient_temperature\<close> and every power cell is zero.
\<close>

theorem zero_steps_leave_initial_fields:
  assumes "0 < nx p" "0 < ny p" "n_steps p = 0"
  shows "\<exists>s0 r. SimplifiedPhysicsSolver_init p = Inr s0 \<and> run_simulation s0 t0 t1 = Inr r \<and>
     temperature_field r = replicate (nat (ny p)) (replicate (nat (nx p)) (ambient_temperature p)) \<and>
     power_field r = replicate (nat (ny p)) (replicate (nat (nx p)) 0)"
proof -
  from init_ok [of p] assms obtain s0 where
    s0: "SimplifiedPhysicsSolver_init p = Inr s0" "solver_ok p s0"
      "temperature s0 = full (nat (ny p)) (nat (nx p)) (ambient_temperature p)"
      "power_generation s0 = full (nat (ny p)) (nat (nx p)) 0"
    by auto
  from summary_ok [OF s0(2) assms(2,1)] obtain r where
    r: "summary s0 t0 t1 = Inr r" "temperature_field r = temperature s0"
    "power_field r = power_generation s0" by blast
  from s0(2) have "params s0 = p" by (simp add: solver_ok_def)
  with assms(3) r(1) have "run_simulation s0 t0 t1 = Inr r"
    by (simp add: run_simulation_def)
  with s0 r show ?thesis by (auto simp: full_def)
qed

theorem zero_steps_leave_initial_fields_witness:
  "\<exists>s0 r. SimplifiedPhysicsSolver_init (SimulationParameters_default\<lparr>n_steps := 0\<rparr>) = Inr s0 \<and>
     run_simulation s0 0 1 = Inr r \<and>
     temperature_field r = replicate 25 (replicate 25 300) \<and>
     power_field r = replicate 25 (replicate 25 0)"
  using zero_steps_leave_initial_fields [of "SimulationParameters_default\<lparr>n_steps := 0\<rparr>" 0 1]
  by (simp add: SimulationParameters_default_def SimulationParameters_init_def)

text \<open>
  The two readings of the clock are the only inputs of a run besides the parameters, and
  they reach \<open>runtime_ms\<close> only.
\<close>

lemma clock_reaches_runtime_only:
  "bind_err (SimplifiedPhysicsSolver_init p) (\<lambda>s. run_simulation s t0' t1') =
   map_sum id (\<lambda>r. r\<lparr>runtime_ms := (t1' - t0') * 1000\<rparr>)
     (bind_err (SimplifiedPhysicsSolver_init p) (\<lambda>s. run_simulation s t0 t1))"
  by (simp add: bind_err_def run_simulation_def summary_def split: sum.splits)

section \<open>The convection coefficient and the route\<close>

lemma h_conv_formula:
  "0 \<le> wind_speed p \<Longrightarrow> h_conv p = max 5.0 (10.45 - wind_speed p + 10 * sqrt (wind_speed p))"
  by (simp add: h_conv_def np_sqrt_def Let_def max_def)

text \<open>
  C2, as stated, fails: with \<open>wind_speed = 0\<close> the coefficient is 10.45, not 5.0.
\<close>

theorem still_air_coefficient_counterexample:
  "h_conv (SimulationParameters_default\<lparr>wind_speed := 0\<rparr>) = 10.45 \<and>
   h_conv (SimulationParameters_default\<lparr>wind_speed := 0\<rparr>) \<noteq> 5.0"
  by (simp add: h_conv_def np_sqrt_def Let_def)

text \<open>
  C2, amended: for a wind speed \<open>v \<ge> 0\<close> the coefficient of the convective loss is
  \<open>max 5.0 (10.45 - v + 10 * sqrt v)\<close>, every cell of the loss is that coefficient times
  the cell area times \<open>T - ambient_temperature\<close>, and at \<open>v = 0\<close> the coefficient is 10.45.
\<close>

theorem convection_coefficient:
  assumes "0 \<le> wind_speed p"
  shows "h_conv p = max 5.0 (10.45 - wind_speed p + 10 * sqrt (wind_speed p)) \<and>
     compute_convective_cooling p T =
       gmap (\<lambda>t. max 5.0 (10.45 - wind_speed p + 10 * sqrt (wind_speed p)) * cell_area
                    * (t - ambient_temperature p)) T \<and>
     (wind_speed p = 0 \<longrightarrow> h_conv p = 10.45)"
  using assms by (simp add: h_conv_formula compute_convective_cooling_def)

theorem convection_coefficient_witness:
  "0 \<le> wind_speed (SimulationParameters_default\<lparr>wind_speed := 0\<rparr>) \<and>
   wind_speed (SimulationParameters_default\<lparr>wind_speed := 0\<rparr>) = 0 \<and>
   h_conv (SimulationParameters_default\<lparr>wind_speed := 0\<rparr>) = 10.45 \<and>
   compute_convective_cooling (SimulationParameters_default\<lparr>wind_speed := 0\<rparr>) [[310]] = [[0.1045 * 10]]"
  using convection_coefficient [of "SimulationParameters_default\<lparr>wind_speed := 0\<rparr>" "[[310]]"]
  by (simp add: gmap_def cell_area_def SimulationParameters_default_def SimulationParameters_init_def)

lemma api_simulate_cases:
  "api_simulate body start_time end_time =
     (case parse_params body of
        Inl e \<Rightarrow> ServerError
      | Inr p \<Rightarrow>
          (case validate_ranges p of
             Some msg \<Rightarrow> BadRequest msg
           | None \<Rightarrow>
               (case SimplifiedPhysicsSolver_init p of
                  Inl e \<Rightarrow> ServerError
                | Inr solver \<Rightarrow>
                    (case run_simulation solver start_time end_time of
                       Inl e \<Rightarrow> ServerError
                     | Inr res \<Rightarrow> Success res p))))"
  by (simp add: api_simulate_def api_simulate_traced_def Let_def split: sum.splits option.splits)

lemma parse_body_irradiance:
  "parse_params (body_irradiance v) = Inr (SimulationParameters_init v 300 1 0.20 130 0.95 0.90)"
  by (simp add: parse_params_def body_irradiance_def get_float_def bind_err_def)

lemma validate_ranges_None: "validate_ranges p = None \<longleftrightarrow> in_range p"
  by (auto simp: validate_ranges_def in_range_def)

lemma api_simulate_in_range:
  assumes "parse_params body = Inr p" "in_range p" "0 < nx p" "0 < ny p"
  shows "\<exists>r. api_simulate body t0 t1 = Success r p"
proof -
  from init_ok [of p] assms obtain s0 where
    s0: "SimplifiedPhysicsSolver_init p = Inr s0" "solver_ok p s0" by auto
  from run_simulation_ok [OF s0(2) assms(4,3), of "\<lambda>_. True" t0 t1]
  obtain r where "run_simulation s0 t0 t1 = Inr r" by auto
  with assms s0 show ?thesis
    by (simp add: api_simulate_cases validate_ranges_None [THEN iffD2])
qed

text \<open>
  C7: a request with \<open>solar_irradiance = 1500\<close> is answered 400 with a message that names
  the solar irradiance and the range 800 to 1200; requests with 800 and with 1200 are
  answered with the results of a run.
\<close>

theorem irradiance_bounds_inclusive:
  "api_simulate (body_irradiance 1500) t0 t1 = BadRequest ''Solar irradiance out of range [800-1200]'' \<and>
   (\<exists>r. api_simulate (body_irradiance 800) t0 t1
          = Success r (SimulationParameters_init 800 300 1 0.20 130 0.95 0.90)) \<and>
   (\<exists>r. api_simulate (body_irradiance 1200) t0 t1
          = Success r (SimulationParameters_init 1200 300 1 0.20 130 0.95 0.90))"
proof -
  have "api_simulate (body_irradiance 1500) t0 t1 = BadRequest ''Solar irradiance out of range [800-1200]''"
    by (simp add: api_simulate_cases parse_body_irradiance validate_ranges_def SimulationParameters_init_def)
  moreover have "\<exists>r. api_simulate (body_irradiance 800) t0 t1
          = Success r (SimulationParameters_init 800 300 1 0.20 130 0.95 0.90)"
    by (rule api_simulate_in_range [OF parse_body_irradiance])
      (simp_all add: in_range_def SimulationParameters_init_def)
  moreover have "\<exists>r. api_simulate (body_irradiance 1200) t0 t1
          = Success r (SimulationParameters_init 1200 300 1 0.20 130 0.95 0.90)"
    by (rule api_simulate_in_range [OF parse_body_irradiance])
      (simp_all add: in_range_def SimulationParameters_init_def)
  ultimately show ?thesis by blast
qed

text \<open>
  C3, as stated, fails: the constructor stores a solar irradiance of 1500 without an
  error, so a parameter object outside the ranges exists.
\<close>

theorem construction_unchecked_counterexample:
  "parse_params (body_irradiance 1500) = Inr (SimulationParameters_init 1500 300 1 0.20 130 0.95 0.90) \<and>
   solar_irradiance (SimulationParameters_init 1500 300 1 0.20 130 0.95 0.90) = 1500 \<and>
   \<not> in_range (SimulationParameters_init 1500 300 1 0.20 130 0.95 0.90)"
  by (simp add: parse_body_irradiance) (simp add: in_range_def SimulationParameters_init_def)

lemma api_simulate_traced_in_range:
  assumes "parse_params body = Inr p" "in_range p" "0 < nx p" "0 < ny p"
  shows "\<exists>r. api_simulate_traced body t0 t1 =
           (Success r p, [Call_SimulationParameters, Call_SimplifiedPhysicsSolver, Call_run_simulation])"
proof -
  from init_ok [of p] assms obtain s0 where
    s0: "SimplifiedPhysicsSolver_init p = Inr s0" "solver_ok p s0" by auto
  from run_simulation_ok [OF s0(2) assms(4,3), of "\<lambda>_. True" t0 t1]
  obtain r where "run_simulation s0 t0 t1 = Inr r" by auto
  with assms s0 show ?thesis
    by (simp add: api_simulate_traced_def validate_ranges_None [THEN iffD2])
qed

lemma parse_body_text_emissivity: "parse_params body_text_emissivity = Inl ValueError"
  by (simp add: parse_params_def body_text_emissivity_def get_float_def bind_err_def)

lemma solver_calls_need_range:
  assumes "Call_SimplifiedPhysicsSolver \<in> set (snd (api_simulate_traced body t0 t1)) \<or>
           Call_run_simulation \<in> set (snd (api_simulate_traced body t0 t1))"
  shows "\<exists>p. parse_params body = Inr p \<and> in_range p"
  using assms
  by (auto simp: api_simulate_traced_def Let_def validate_ranges_None [symmetric]
      split: sum.splits option.splits)

text \<open>
  C3, amended: the route converts the seven fields with \<^verbatim>\<open>float()\<close>, constructs the
  parameters without a check, and checks the four ranges afterwards. A request with a field
  that \<^verbatim>\<open>float()\<close> rejects is answered 500 and nothing is constructed. A request whose
  parameters are constructed and lie outside a checked range is answered 400 with the
  message of the first failed check, and the constructor of the parameters is the only call
  made. For every request, the solver is constructed or run only if the parameters were
  constructed and pass the four checks.
\<close>

theorem route_checks_before_solver:
  "(\<forall>e. parse_params body = Inl e \<longrightarrow>
      api_simulate_traced body t0 t1 = (ServerError, [])) \<and>
   (\<forall>p. parse_params body = Inr p \<and> \<not> in_range p \<longrightarrow>
      (\<exists>msg. validate_ranges p = Some msg \<and>
         api_simulate_traced body t0 t1 = (BadRequest msg, [Call_SimulationParameters]) \<and>
         api_simulate body t0 t1 = BadRequest msg)) \<and>
   (Call_SimplifiedPhysicsSolver \<in> set (snd (api_simulate_traced body t0 t1)) \<or>
    Call_run_simulation \<in> set (snd (api_simulate_traced body t0 t1)) \<longrightarrow>
      (\<exists>p. parse_params body = Inr p \<and> in_range p))"
proof (intro conjI allI impI)
  fix e assume "parse_params body = Inl e"
  then show "api_simulate_traced body t0 t1 = (ServerError, [])"
    by (simp add: api_simulate_traced_def)
next
  fix p assume a: "parse_params body = Inr p \<and> \<not> in_range p"
  then obtain msg where m: "validate_ranges p = Some msg"
    using validate_ranges_None [of p] by (cases "validate_ranges p") auto
  with a have "api_simulate_traced body t0 t1 = (BadRequest msg, [Call_SimulationParameters])"
    by (simp add: api_simulate_traced_def)
  with m show "\<exists>msg. validate_ranges p = Some msg \<and>
         api_simulate_traced body t0 t1 = (BadRequest msg, [Call_SimulationParameters]) \<and>
         api_simulate body t0 t1 = BadRequest msg"
    by (simp add: api_simulate_def)
next
  assume "Call_SimplifiedPhysicsSolver \<in> set (snd (api_simulate_traced body t0 t1)) \<or>
    Call_run_simulation \<in> set (snd (api_simulate_traced body t0 t1))"
  then show "\<exists>p. parse_params body = Inr p \<and> in_range p"
    by (rule solver_calls_need_range)
qed

theorem route_checks_before_solver_witness:
  "parse_params body_text_emissivity = Inl ValueError \<and>
   api_simulate_traced body_text_emissivity 0 1 = (ServerError, []) \<and>
   parse_params (body_irradiance 1500) = Inr (SimulationParameters_init 1500 300 1 0.20 130 0.95 0.90) \<and>
   \<not> in_range (SimulationParameters_init 1500 300 1 0.20 130 0.95 0.90) \<and>
   api_simulate_traced (body_irradiance 1500) 0 1 =
     (BadRequest ''Solar irradiance out of range [800-1200]'', [Call_SimulationParameters]) \<and>
   Call_run_simulation \<in> set (snd (api_simulate_traced (body_irradiance 800) 0 1)) \<and>
   parse_params (body_irradiance 800) = Inr (SimulationParameters_init 800 300 1 0.20 130 0.95 0.90) \<and>
   in_range (SimulationParameters_init 800 300 1 0.20 130 0.95 0.90)"
proof -
  let ?hi = "SimulationParameters_init 1500 300 1 0.20 130 0.95 0.90"
  let ?lo = "SimulationParameters_init 800 300 1 0.20 130 0.95 0.90"
  have a: "parse_params body_text_emissivity = Inl ValueError"
    by (rule parse_body_text_emissivity)
  have b: "parse_params (body_irradiance 1500) = Inr ?hi"
    by (rule parse_body_irradiance)
  have c: "\<not> in_range ?hi"
    by (simp add: in_range_def SimulationParameters_init_def)
  have m: "validate_ranges ?hi = Some ''Solar irradiance out of range [800-1200]''"
    by (simp add: validate_ranges_def SimulationParameters_init_def)
  have d: "parse_params (body_irradiance 800) = Inr ?lo"
    by (rule parse_body_irradiance)
  have "\<exists>r. api_simulate_traced (body_irradiance 800) 0 1 =
      (Success r ?lo, [Call_SimulationParameters, Call_SimplifiedPhysicsSolver, Call_run_simulation])"
    by (rule api_simulate_traced_in_range [OF d]) (simp_all add: in_range_def SimulationParameters_init_def)
  then have e: "Call_run_simulation \<in> set (snd (api_simulate_traced (body_irradiance 800) 0 1))"
    by auto
  note t1 = route_checks_before_solver [of body_text_emissivity 0 1]
  note t2 = route_checks_before_solver [of "body_irradiance 1500" 0 1]
  note t3 = route_checks_before_solver [of "body_irradiance 800" 0 1]
  from t1 a have f: "api_simulate_traced body_text_emissivity 0 1 = (ServerError, [])"
    by blast
  from t2 b c m have g: "api_simulate_traced (body_irradiance 1500) 0 1 =
     (BadRequest ''Solar irradiance out of range [800-1200]'', [Call_SimulationParameters])"
    by auto
  from t3 e d have h: "in_range ?lo"
    by auto
  from a f b c g e d h show ?thesis by blast
qed


section \<open>Conduction\<close>

lemma grid_eq_full:
  assumes "shape m n Q" "\<And>i j. i < m \<Longrightarrow> j < n \<Longrightarrow> Q ! i ! j = v"
  shows "Q = full m n v"
proof (rule nth_equalityI)
  show "length Q = length (full m n v)"
    using assms(1) by (simp add: shape_def full_def)
next
  fix i assume "i < length Q"
  with assms(1) have i: "i < m" and len: "length (Q ! i) = n"
    by (simp_all add: shape_def)
  show "Q ! i = full m n v ! i"
  proof (rule nth_equalityI)
    show "length (Q ! i) = length (full m n v ! i)"
      using i len by (simp add: full_def)
  next
    fix j assume "j < length (Q ! i)"
    with len have "j < n" by simp
    with i show "Q ! i ! j = full m n v ! i ! j"
      by (simp add: assms(2) cell_full)
  qed
qed

lemma neighbour_laplacian_uniform:
  assumes "i < m" "j < n"
  shows "neighbour_laplacian (full m n c) i j = 0"
  using assms by (simp add: neighbour_laplacian_def Let_def full_def)

text \<open>
  C9: on a non-empty array \<^verbatim>\<open>compute_conduction\<close> returns an array of the same shape whose
  cell \<open>(i, j)\<close> is \<open>alpha * L * rho * c_p * cell_area * dx\<close>, where \<open>L\<close> is the 5-point
  Laplacian in which a neighbour outside the array is replaced by the cell itself; on a
  uniform array every cell of the result is zero.
\<close>

theorem conduction_edge_replicated_laplacian:
  assumes "shape m n T" "0 < m" "0 < n"
  shows "\<exists>Q. compute_conduction p T = Inr Q \<and> shape m n Q \<and>
     (\<forall>i<m. \<forall>j<n. Q ! i ! j =
        thermal_conductivity p / (2330 * 700) * neighbour_laplacian T i j * 2330 * 700 * cell_area * dx) \<and>
     (\<forall>c. T = full m n c \<longrightarrow> Q = full m n 0)"
proof -
  let ?Q = "conduction_field p T"
  have cell: "?Q ! i ! j =
      thermal_conductivity p / (2330 * 700) * neighbour_laplacian T i j * 2330 * 700 * cell_area * dx"
    if "i < m" "j < n" for i j
    using assms that by (rule conduction_field_cell)
  have sh: "shape m n ?Q"
    using assms by (rule shape_conduction_field)
  have "?Q = full m n 0" if "T = full m n c" for c
  proof (rule grid_eq_full [OF sh])
    fix i j assume "i < m" "j < n"
    then have "neighbour_laplacian T i j = 0"
      unfolding that by (rule neighbour_laplacian_uniform)
    with \<open>i < m\<close> \<open>j < n\<close> show "?Q ! i ! j = 0"
      by (simp add: cell)
  qed
  with cell sh compute_conduction_ok [OF assms, of p] show ?thesis by blast
qed

theorem conduction_edge_replicated_laplacian_witness:
  "shape 2 2 [[300, 310], [320, 330]] \<and>
   (\<exists>Q. compute_conduction SimulationParameters_default [[300, 310], [320, 330]] = Inr Q \<and>
      Q ! 0 ! 0 = 390 \<and> Q ! 0 ! 1 = 130 \<and> Q ! 1 ! 0 = - 130 \<and> Q ! 1 ! 1 = - 390) \<and>
   (\<exists>Q. compute_conduction SimulationParameters_default (full 2 2 300) = Inr Q \<and> Q = full 2 2 0)"
proof -
  have sh: "shape 2 2 [[300, 310], [320, 330]]"
    by (simp add: shape_def)
  have k: "thermal_conductivity SimulationParameters_default = 130"
    by (simp add: SimulationParameters_default_def SimulationParameters_init_def)
  from conduction_edge_replicated_laplacian [OF sh, of SimulationParameters_default]
  obtain Q where Q: "compute_conduction SimulationParameters_default [[300, 310], [320, 330]] = Inr Q"
    "\<forall>i<2. \<forall>j<2. Q ! i ! j =
        thermal_conductivity SimulationParameters_default / (2330 * 700)
        * neighbour_laplacian [[300, 310], [320, 330]] i j * 2330 * 700 * cell_area * dx"
    by auto
  have "Q ! 0 ! 0 = 390" "Q ! 0 ! 1 = 130" "Q ! 1 ! 0 = - 130" "Q ! 1 ! 1 = - 390"
    using Q(2) [rule_format, of 0 0] Q(2) [rule_format, of 0 1]
      Q(2) [rule_format, of 1 0] Q(2) [rule_format, of 1 1]
    by (simp_all add: k neighbour_laplacian_def cell_area_def dx_def dy_def power2_eq_square)
  moreover from conduction_edge_replicated_laplacian [OF shape_full, of 2 2 SimulationParameters_default 300]
  have "\<exists>Q. compute_conduction SimulationParameters_default (full 2 2 300) = Inr Q \<and> Q = full 2 2 0"
    by auto
  ultimately show ?thesis using sh Q(1) by blast
qed

section \<open>Solar absorption and electrical generation\<close>

lemma nth_linspace01: "j < n \<Longrightarrow> linspace01 n ! j = (if n = 1 then 0 else real j / real (n - 1))"
  by (simp add: linspace01_def)

lemma linspace01_unit: "j < n \<Longrightarrow> 0 \<le> linspace01 n ! j \<and> linspace01 n ! j \<le> 1"
  by (simp add: nth_linspace01)

lemma edge_factor_bounds:
  assumes "0 \<le> x" "x \<le> 1" "0 \<le> y" "y \<le> 1"
  shows "0.6 \<le> edge_factor x y" and "edge_factor x y < 1"
proof -
  define s where "s = exp (- 10 * x) + exp (- 10 * (1 - x)) + exp (- 10 * y) + exp (- 10 * (1 - y))"
  have "exp (- 10 * x) \<le> 1" "exp (- 10 * (1 - x)) \<le> 1"
       "exp (- 10 * y) \<le> 1" "exp (- 10 * (1 - y)) \<le> 1"
    using assms by simp_all
  then have le: "s \<le> 4"
    unfolding s_def by linarith
  have "0 < exp (- 10 * x)" "0 < exp (- 10 * (1 - x))"
       "0 < exp (- 10 * y)" "0 < exp (- 10 * (1 - y))"
    by simp_all
  then have pos: "0 < s"
    unfolding s_def by linarith
  have eq: "edge_factor x y = 1 - s / 10"
    by (simp add: edge_factor_def s_def)
  from le show "0.6 \<le> edge_factor x y"
    unfolding eq by simp
  from pos show "edge_factor x y < 1"
    unfolding eq by simp
qed

lemma solar_cell:
  assumes "i < nat (ny p)" "j < nat (nx p)"
  shows "compute_solar_absorption p ! i ! j =
     solar_irradiance p * absorptivity p * cell_area
       * edge_factor (linspace01 (nat (nx p)) ! j) (linspace01 (nat (ny p)) ! i)"
proof -
  let ?x = "linspace01 (nat (nx p))" and ?y = "linspace01 (nat (ny p))"
  have X: "shape (nat (ny p)) (nat (nx p)) (map (\<lambda>_. ?x) ?y)"
    by (auto simp: shape_def length_linspace01)
  have Y: "shape (nat (ny p)) (nat (nx p)) (map (\<lambda>yi. map (\<lambda>_. yi) ?x) ?y)"
    by (auto simp: shape_def length_linspace01)
  have Xc: "map (\<lambda>_. ?x) ?y ! i ! j = ?x ! j"
    using assms by (simp add: length_linspace01)
  have Yc: "map (\<lambda>yi. map (\<lambda>_. yi) ?x) ?y ! i ! j = ?y ! i"
    using assms by (simp add: length_linspace01)
  show ?thesis
    unfolding compute_solar_absorption_def meshgrid_def Let_def prod.case
    by (simp only: cell_gmap [OF shape_gmap2 [OF X Y] assms] cell_gmap2 [OF X Y assms] Xc Yc)
qed

lemma electrical_cell:
  assumes "shape (nat (ny p)) (nat (nx p)) T" "i < nat (ny p)" "j < nat (nx p)"
  shows "compute_electrical_generation p T ! i ! j =
     np_clip (cell_efficiency p * (1 - 0.004 * (T ! i ! j - 298.15))) 0.05 0.30
       * compute_solar_absorption p ! i ! j"
  unfolding compute_electrical_generation_def Let_def
  by (simp add: cell_gmap2 [OF shape_gmap [OF shape_gmap [OF assms(1)]] shape_solar assms(2,3)]
      cell_gmap [OF shape_gmap [OF assms(1)] assms(2,3)] cell_gmap [OF assms])

lemma np_clip_bounds: "lo \<le> hi \<Longrightarrow> lo \<le> np_clip a lo hi \<and> np_clip a lo hi \<le> hi"
  by (simp add: np_clip_def)

lemma solar_cell_sign:
  assumes "i < nat (ny p)" "j < nat (nx p)"
  shows "0 \<le> solar_irradiance p * absorptivity p \<Longrightarrow>
           0 \<le> compute_solar_absorption p ! i ! j \<and>
           compute_solar_absorption p ! i ! j \<le> solar_irradiance p * absorptivity p * 0.01"
    and "solar_irradiance p * absorptivity p < 0 \<Longrightarrow>
           compute_solar_absorption p ! i ! j < 0 \<and>
           solar_irradiance p * absorptivity p * 0.01 < compute_solar_absorption p ! i ! j"
proof -
  let ?e = "edge_factor (linspace01 (nat (nx p)) ! j) (linspace01 (nat (ny p)) ! i)"
  let ?q = "solar_irradiance p * absorptivity p"
  have e: "0.6 \<le> ?e" "?e < 1"
    using edge_factor_bounds linspace01_unit assms by simp_all
  have eq: "compute_solar_absorption p ! i ! j = ?q * 0.01 * ?e"
    using assms by (simp add: solar_cell cell_area_def)
  {
    assume q: "0 \<le> ?q"
    then have "0 \<le> ?q * 0.01 * ?e" using e by simp
    moreover have "?q * 0.01 * ?e \<le> ?q * 0.01 * 1"
      using q e by (intro mult_left_mono) simp_all
    ultimately show "0 \<le> compute_solar_absorption p ! i ! j \<and>
           compute_solar_absorption p ! i ! j \<le> ?q * 0.01"
      by (simp add: eq)
  }
  {
    assume q: "?q < 0"
    then have "?q * 0.01 * ?e < 0" using e by (simp add: mult_less_0_iff)
    moreover have "?q * 0.01 * 1 < ?q * 0.01 * ?e"
      using q e by (intro mult_strict_left_mono_neg) simp_all
    ultimately show "compute_solar_absorption p ! i ! j < 0 \<and>
           ?q * 0.01 < compute_solar_absorption p ! i ! j"
      by (simp add: eq)
  }
qed

lemma parse_body_absorptivity:
  "parse_params (body_absorptivity v) = Inr (SimulationParameters_init 1000 300 1 0.20 130 v 0.90)"
  by (simp add: parse_params_def body_absorptivity_def get_float_def bind_err_def)

lemma power_stepped:
  "power_generation (stepped s) = compute_electrical_generation (params s) (temperature s)"
  by (simp add: stepped_def)

lemma power_after_run:
  assumes ok: "solver_ok p s0" and dims: "0 < ny p" "0 < nx p" and n: "0 < n_steps p"
  shows "\<exists>s' r. solver_ok p s' \<and> run_simulation s0 t0 t1 = Inr r \<and>
           power_field r = compute_electrical_generation p (temperature s')"
proof -
  from n obtain k where k: "nat (n_steps p) = Suc k"
    by (cases "nat (n_steps p)") auto
  from time_integration_last [OF ok dims, of k] obtain s' where
    s': "solver_ok p s'" "time_integration (Suc k) s0 = Inr (stepped s')" by blast
  have "solver_ok p (stepped s')"
    using s'(1) dims by (rule stepped_ok)
  from summary_ok [OF this dims, of t0 t1] obtain r where
    r: "summary (stepped s') t0 t1 = Inr r" "power_field r = power_generation (stepped s')"
    by blast
  from ok s'(1) have "params s0 = p" "params s' = p"
    by (simp_all add: solver_ok_def)
  with k s'(2) r have "run_simulation s0 t0 t1 = Inr r"
    "power_field r = compute_electrical_generation p (temperature s')"
    by (simp_all add: run_simulation_def power_stepped)
  with s'(1) show ?thesis by blast
qed

lemma electrical_cell_bounds:
  assumes T: "shape (nat (ny p)) (nat (nx p)) T" and ij: "i < nat (ny p)" "j < nat (nx p)"
  shows "0 \<le> solar_irradiance p * absorptivity p \<Longrightarrow>
           0 \<le> compute_electrical_generation p T ! i ! j \<and>
           compute_electrical_generation p T ! i ! j \<le> 0.30 * solar_irradiance p * absorptivity p * 0.01"
    and "solar_irradiance p * absorptivity p < 0 \<Longrightarrow>
           compute_electrical_generation p T ! i ! j < 0 \<and>
           0.30 * solar_irradiance p * absorptivity p * 0.01 < compute_electrical_generation p T ! i ! j"
proof -
  let ?eta = "np_clip (cell_efficiency p * (1 - 0.004 * (T ! i ! j - 298.15))) 0.05 0.30"
  let ?Q = "compute_solar_absorption p ! i ! j"
  let ?q = "solar_irradiance p * absorptivity p"
  have eta: "0.05 \<le> ?eta" "?eta \<le> 0.30"
    using np_clip_bounds [of "0.05" "0.30"] by simp_all
  have eq: "compute_electrical_generation p T ! i ! j = ?eta * ?Q"
    using T ij by (rule electrical_cell)
  {
    assume q: "0 \<le> ?q"
    from solar_cell_sign(1) [OF ij q] have Q: "0 \<le> ?Q" "?Q \<le> ?q * 0.01" by simp_all
    have "0 \<le> ?eta * ?Q" using eta Q by simp
    moreover have "?eta * ?Q \<le> 0.30 * (?q * 0.01)"
      using eta Q by (intro mult_mono) simp_all
    ultimately show "0 \<le> compute_electrical_generation p T ! i ! j \<and>
           compute_electrical_generation p T ! i ! j \<le> 0.30 * solar_irradiance p * absorptivity p * 0.01"
      by (simp add: eq)
  }
  {
    assume q: "?q < 0"
    from solar_cell_sign(2) [OF ij q] have Q: "?Q < 0" "?q * 0.01 < ?Q" by simp_all
    have a: "?eta * ?Q < 0" using eta Q by (simp add: mult_less_0_iff)
    have "0.30 * (?q * 0.01) < 0.30 * ?Q"
      using Q(2) by (intro mult_strict_left_mono) simp_all
    also have "0.30 * ?Q \<le> ?eta * ?Q"
      using eta Q by (intro mult_right_mono_neg) simp_all
    finally have b: "0.30 * (?q * 0.01) < ?eta * ?Q" .
    have c: "0.30 * solar_irradiance p * absorptivity p * 0.01 = 0.30 * (?q * 0.01)"
      by simp
    show "compute_electrical_generation p T ! i ! j < 0 \<and>
           0.30 * solar_irradiance p * absorptivity p * 0.01 < compute_electrical_generation p T ! i ! j"
      unfolding eq c using a b by (rule conjI)
  }
qed

lemma electrical_all_cells:
  assumes T: "shape (nat (ny p)) (nat (nx p)) T" and q: "0 \<le> solar_irradiance p * absorptivity p"
  shows "all_cells (\<lambda>q. 0 \<le> q) (compute_electrical_generation p T)"
    and "all_cells (\<lambda>q. q \<le> 0.30 * solar_irradiance p * absorptivity p * 0.01)
           (compute_electrical_generation p T)"
  using electrical_cell_bounds(1) [OF T _ _ q]
  by (simp_all add: all_cells_nth [OF shape_electrical [OF T]])

section \<open>Bounds on the power array\<close>

lemma power_invariant:
  assumes "0 \<le> solar_irradiance p * absorptivity p" "0 < nx p" "0 < ny p"
    and I0: "I (full (nat (ny p)) (nat (nx p)) 0)"
    and Istep: "\<And>T. shape (nat (ny p)) (nat (nx p)) T \<Longrightarrow> I (compute_electrical_generation p T)"
  shows "\<exists>s0. SimplifiedPhysicsSolver_init p = Inr s0 \<and>
     (\<forall>k. \<exists>s. time_integration k s0 = Inr s \<and> I (power_generation s)) \<and>
     (\<exists>r. run_simulation s0 t0 t1 = Inr r \<and> I (power_field r))"
proof -
  let ?I = "\<lambda>s. I (power_generation s)"
  from init_ok [of p] assms(2,3) obtain s0 where
    s0: "SimplifiedPhysicsSolver_init p = Inr s0" "solver_ok p s0"
      "power_generation s0 = full (nat (ny p)) (nat (nx p)) 0"
    by auto
  have I0': "?I s0" by (simp add: s0(3) I0)
  have step: "?I (stepped s)" if "solver_ok p s" for s
    using that by (simp add: power_stepped solver_ok_def Istep)
  have "\<exists>s. time_integration k s0 = Inr s \<and> ?I s" for k
    using time_integration_invariant [OF s0(2) assms(3,2), of ?I k, OF I0' step] by blast
  moreover have "\<exists>r. run_simulation s0 t0 t1 = Inr r \<and> I (power_field r)"
    using run_simulation_ok [OF s0(2) assms(3,2), of ?I t0 t1, OF I0' step] by auto
  ultimately show ?thesis using s0(1) by blast
qed

section \<open>A request with a negative absorptivity\<close>

text \<open>
  The route does not check the absorptivity. A request with \<open>absorptivity = -1\<close>, outside
  the documented range, passes the four checks and is answered with the results of a run
  whose power is negative at the centre of the panel: the bounds on the power below need
  their hypothesis on the absorptivity.
\<close>

lemma negative_absorptivity_run:
  "validate_ranges params_negative_absorptivity = None \<and>
   (\<exists>s0 r. SimplifiedPhysicsSolver_init params_negative_absorptivity = Inr s0 \<and>
      run_simulation s0 t0 t1 = Inr r \<and>
      power_field r ! 12 ! 12 < 0 \<and> - 3 < power_field r ! 12 ! 12)"
proof -
  let ?p = params_negative_absorptivity
  have f: "nx ?p = 25" "ny ?p = 25" "n_steps ?p = 100" "solar_irradiance ?p = 1000"
    "absorptivity ?p = - 1"
    by (simp_all add: params_negative_absorptivity_def SimulationParameters_init_def)
  have v: "validate_ranges ?p = None"
    by (simp add: validate_ranges_def params_negative_absorptivity_def SimulationParameters_init_def)
  from init_ok [of ?p] obtain s0 where
    s0: "SimplifiedPhysicsSolver_init ?p = Inr s0" "solver_ok ?p s0"
    by (auto simp: f)
  from power_after_run [OF s0(2), of t0 t1] obtain s' r where
    r: "solver_ok ?p s'" "run_simulation s0 t0 t1 = Inr r"
      "power_field r = compute_electrical_generation ?p (temperature s')"
    by (auto simp: f)
  have T: "shape (nat (ny ?p)) (nat (nx ?p)) (temperature s')"
    using r(1) by (simp add: solver_ok_def)
  have "compute_electrical_generation ?p (temperature s') ! 12 ! 12 < 0 \<and>
     0.30 * solar_irradiance ?p * absorptivity ?p * 0.01
       < compute_electrical_generation ?p (temperature s') ! 12 ! 12"
    by (rule electrical_cell_bounds(2) [OF T]) (simp_all add: f)
  then have "power_field r ! 12 ! 12 < 0 \<and> - 3 < power_field r ! 12 ! 12"
    by (simp add: r(3) f)
  with v s0(1) r(2) show ?thesis by blast
qed

lemma route_negative_absorptivity:
  "\<exists>r. api_simulate (body_absorptivity (- 1)) t0 t1 = Success r params_negative_absorptivity \<and>
        power_field r ! 12 ! 12 < 0 \<and> - 3 < power_field r ! 12 ! 12"
proof -
  have p: "parse_params (body_absorptivity (- 1)) = Inr params_negative_absorptivity"
    by (simp add: parse_body_absorptivity params_negative_absorptivity_def)
  from negative_absorptivity_run [of t0 t1] p show ?thesis
    by (auto simp: api_simulate_cases)
qed

section \<open>The net flux and the power of one step\<close>

lemma convective_cell:
  "shape m n T \<Longrightarrow> i < m \<Longrightarrow> j < n \<Longrightarrow>
   compute_convective_cooling p T ! i ! j = h_conv p * cell_area * (T ! i ! j - ambient_temperature p)"
  by (simp add: compute_convective_cooling_def cell_gmap)

lemma radiative_cell:
  "shape m n T \<Longrightarrow> i < m \<Longrightarrow> j < n \<Longrightarrow>
   compute_radiative_cooling p T ! i ! j =
     emissivity p * STEFAN_BOLTZMANN * cell_area * ((T ! i ! j) ^ 4 - (ambient_temperature p - 10) ^ 4)"
  by (simp add: compute_radiative_cooling_def cell_gmap)

lemma net_flux_cell:
  assumes T: "shape (nat (ny p)) (nat (nx p)) T" and dims: "0 < ny p" "0 < nx p"
    and ij: "i < nat (ny p)" "j < nat (nx p)"
  shows "net_flux p T ! i ! j =
     (1 - cell_efficiency p) * compute_solar_absorption p ! i ! j
     - compute_convective_cooling p T ! i ! j
     - compute_radiative_cooling p T ! i ! j
     + conduction_field p T ! i ! j"
proof -
  have K: "shape (nat (ny p)) (nat (nx p)) (conduction_field p T)"
    using T dims by (intro shape_conduction_field) simp_all
  note sh = shape_gmap shape_gmap2 shape_solar shape_convective [OF T] shape_radiative [OF T] K
  show ?thesis
    unfolding net_flux_def
    by (simp add: cell_gmap2 [OF _ _ ij] cell_gmap [OF _ ij] sh)
qed

lemma stepped_temperature_cell:
  assumes ok: "solver_ok p s" and dims: "0 < ny p" "0 < nx p"
    and ij: "i < nat (ny p)" "j < nat (nx p)"
  shows "temperature (stepped s) ! i ! j =
     np_clip (temperature s ! i ! j
        + net_flux p (temperature s) ! i ! j * dt p / (2330 * cell_area * 0.002 * 700)) 200 450"
proof -
  from ok have p: "params s = p" and T: "shape (nat (ny p)) (nat (nx p)) (temperature s)"
    by (simp_all add: solver_ok_def)
  have N: "shape (nat (ny p)) (nat (nx p)) (net_flux p (temperature s))"
    using T dims by (rule shape_net_flux)
  note sh = shape_gmap shape_gmap2 T N
  show ?thesis
    unfolding stepped_def p
    by (simp add: cell_gmap2 [OF _ _ ij] cell_gmap [OF _ ij] sh)
qed

lemma derated_below_nominal:
  assumes "in_range p" "298.15 < t"
  shows "np_clip (cell_efficiency p * (1 - 0.004 * (t - 298.15))) 0.05 0.30 < cell_efficiency p"
proof -
  define a where "a = cell_efficiency p * (1 - 0.004 * (t - 298.15))"
  from assms(1) have e: "0.10 \<le> cell_efficiency p" by (simp add: in_range_def)
  have "0 < 0.004 * (t - 298.15)" using assms(2) by simp
  then have "1 - 0.004 * (t - 298.15) < 1" by linarith
  then have "cell_efficiency p * (1 - 0.004 * (t - 298.15)) < cell_efficiency p * 1"
    using e by (intro mult_strict_left_mono) simp_all
  then have a: "a < cell_efficiency p" by (simp add: a_def)
  have "np_clip a 0.05 0.30 \<le> max a 0.05"
    by (simp add: np_clip_def)
  also have "max a 0.05 < cell_efficiency p"
    using a e by simp
  finally show ?thesis unfolding a_def .
qed

text \<open>
  C4: one pass of the time loop on a solver whose arrays have the shape of the grid returns
  a solver in which, at every cell, the temperature is the old one plus
  \<open>Q_net * dt / (mass * c_p)\<close>, clipped to 200 and 450, with
  \<open>Q_net = (1 - cell_efficiency) * Q_solar - Q_conv - Q_rad + Q_cond\<close> taken with the
  configured efficiency, while the power of the cell is \<open>eta * Q_solar\<close> with the
  efficiency \<open>eta = clip (cell_efficiency * (1 - 0.004 * (T - 298.15))) 0.05 0.30\<close> derated
  by the old temperature of the cell. The two efficiencies are different values: for
  parameters in range and a cell warmer than 298.15 K, \<open>eta\<close> is below \<open>cell_efficiency\<close>.
\<close>

theorem net_flux_nominal_power_derated:
  fixes p :: SimulationParameters and s :: SimplifiedPhysicsSolver and i j :: nat
  defines "T \<equiv> temperature s ! i ! j"
  defines "Q_solar \<equiv> solar_irradiance p * absorptivity p * cell_area
     * edge_factor (linspace01 (nat (nx p)) ! j) (linspace01 (nat (ny p)) ! i)"
  defines "Q_conv \<equiv> h_conv p * cell_area * (T - ambient_temperature p)"
  defines "Q_rad \<equiv> emissivity p * STEFAN_BOLTZMANN * cell_area * (T ^ 4 - (ambient_temperature p - 10) ^ 4)"
  defines "Q_cond \<equiv> thermal_conductivity p / (2330 * 700) * neighbour_laplacian (temperature s) i j
     * 2330 * 700 * cell_area * dx"
  defines "eta \<equiv> np_clip (cell_efficiency p * (1 - 0.004 * (T - 298.15))) 0.05 0.30"
  assumes "solver_ok p s" "0 < nx p" "0 < ny p" "i < nat (ny p)" "j < nat (nx p)"
  shows "\<exists>s'. time_step s = Inr s' \<and>
     temperature s' ! i ! j =
       np_clip (T + ((1 - cell_efficiency p) * Q_solar - Q_conv - Q_rad + Q_cond) * dt p
                      / (2330 * cell_area * 0.002 * 700)) 200 450 \<and>
     power_generation s' ! i ! j = eta * Q_solar \<and>
     (in_range p \<and> 298.15 < T \<longrightarrow> eta < cell_efficiency p)"
proof -
  from assms(7) have p: "params s = p" and sh: "shape (nat (ny p)) (nat (nx p)) (temperature s)"
    by (simp_all add: solver_ok_def)
  have dims: "0 < nat (ny p)" "0 < nat (nx p)"
    using assms(8,9) by simp_all
  have step: "time_step s = Inr (stepped s)"
    using assms(7,9,8) by (rule time_step_ok)
  have Qs: "compute_solar_absorption p ! i ! j = Q_solar"
    unfolding Q_solar_def using assms(10,11) by (rule solar_cell)
  have Qc: "compute_convective_cooling p (temperature s) ! i ! j = Q_conv"
    unfolding Q_conv_def T_def using sh assms(10,11) by (rule convective_cell)
  have Qr: "compute_radiative_cooling p (temperature s) ! i ! j = Q_rad"
    unfolding Q_rad_def T_def using sh assms(10,11) by (rule radiative_cell)
  have Qk: "conduction_field p (temperature s) ! i ! j = Q_cond"
    unfolding Q_cond_def using sh dims assms(10,11) by (rule conduction_field_cell)
  have N: "net_flux p (temperature s) ! i ! j
      = (1 - cell_efficiency p) * Q_solar - Q_conv - Q_rad + Q_cond"
    using net_flux_cell [OF sh assms(9,8,10,11)] by (simp only: Qs Qc Qr Qk)
  have t: "temperature (stepped s) ! i ! j =
       np_clip (T + ((1 - cell_efficiency p) * Q_solar - Q_conv - Q_rad + Q_cond) * dt p
                      / (2330 * cell_area * 0.002 * 700)) 200 450"
    using stepped_temperature_cell [OF assms(7,9,8,10,11)] by (simp only: N T_def)
  have w: "power_generation (stepped s) ! i ! j = eta * Q_solar"
    unfolding power_stepped p eta_def T_def
    using electrical_cell [OF sh assms(10,11)] by (simp only: Qs)
  have d: "in_range p \<and> 298.15 < T \<longrightarrow> eta < cell_efficiency p"
    unfolding eta_def using derated_below_nominal [of p T] by blast
  from step t w d show ?thesis by blast
qed

theorem net_flux_nominal_power_derated_witness:
  "solver_ok SimulationParameters_default
     \<lparr>params = SimulationParameters_default, temperature = full 25 25 300,
      power_generation = full 25 25 0\<rparr> \<and>
   in_range SimulationParameters_default \<and>
   (\<exists>s'. time_step \<lparr>params = SimulationParameters_default, temperature = full 25 25 300,
                     power_generation = full 25 25 0\<rparr> = Inr s' \<and>
      power_generation s' ! 12 ! 12 = 0.19852 * (9.5 * edge_factor (1 / 2) (1 / 2))) \<and>
   (0.19852 :: real) < cell_efficiency SimulationParameters_default"
proof -
  let ?D = SimulationParameters_default
  let ?S = "\<lparr>params = ?D, temperature = full 25 25 300, power_generation = full 25 25 0\<rparr>"
  have f: "nx ?D = 25" "ny ?D = 25" "cell_efficiency ?D = 0.20" "solar_irradiance ?D = 1000"
    "absorptivity ?D = 0.95"
    by (simp_all add: SimulationParameters_default_def SimulationParameters_init_def)
  have ok: "solver_ok ?D ?S"
    by (simp add: solver_ok_def f shape_full)
  have T: "temperature ?S ! 12 ! 12 = 300"
    by (simp add: cell_full)
  have x: "linspace01 (nat (nx ?D)) ! 12 = 1 / 2" "linspace01 (nat (ny ?D)) ! 12 = 1 / 2"
    by (simp_all add: f nth_linspace01)
  have eta: "np_clip (cell_efficiency ?D * (1 - 0.004 * (temperature ?S ! 12 ! 12 - 298.15))) 0.05 0.30
      = 0.19852"
    unfolding T by (simp add: f np_clip_def)
  from net_flux_nominal_power_derated [OF ok, of 12 12] obtain s' where
    "time_step ?S = Inr s'"
    "power_generation s' ! 12 ! 12 =
       np_clip (cell_efficiency ?D * (1 - 0.004 * (temperature ?S ! 12 ! 12 - 298.15))) 0.05 0.30
       * (solar_irradiance ?D * absorptivity ?D * cell_area
          * edge_factor (linspace01 (nat (nx ?D)) ! 12) (linspace01 (nat (ny ?D)) ! 12))"
    by (auto simp: f)
  then have "\<exists>s'. time_step ?S = Inr s' \<and>
      power_generation s' ! 12 ! 12 = 0.19852 * (9.5 * edge_factor (1 / 2) (1 / 2))"
    unfolding eta x by (simp add: f cell_area_def)
  with ok default_in_range show ?thesis by (simp add: f)
qed

section \<open>Runs on valid parameters\<close>

lemma valid_in_range: "valid_parameters p \<Longrightarrow> in_range p"
  by (simp add: valid_parameters_def in_range_def)

lemma valid_dims: "valid_parameters p \<Longrightarrow> 0 < nx p" "valid_parameters p \<Longrightarrow> 0 < ny p"
  by (simp_all add: valid_parameters_def)

lemma valid_irradiance: "valid_parameters p \<Longrightarrow> 0 \<le> solar_irradiance p * absorptivity p"
  by (simp add: valid_parameters_def)

lemma default_valid: "valid_parameters SimulationParameters_default"
  by (simp add: valid_parameters_def SimulationParameters_default_def SimulationParameters_init_def)

lemma h_conv_bounds:
  assumes "0 \<le> wind_speed p" "wind_speed p \<le> 10"
  shows "5 \<le> h_conv p" and "h_conv p \<le> 50.45"
proof -
  have "sqrt (wind_speed p) \<le> sqrt 16"
    using assms by (intro real_sqrt_le_mono) simp
  then have s: "sqrt (wind_speed p) \<le> 4" by simp
  have eq: "h_conv p = max 5.0 (10.45 - wind_speed p + 10 * sqrt (wind_speed p))"
    using assms(1) by (rule h_conv_formula)
  define x where "x = 10.45 - wind_speed p + 10 * sqrt (wind_speed p)"
  have "x \<le> 10.45 + 10 * 4"
    unfolding x_def using s assms(1) by linarith
  then have x: "x \<le> 50.45" by simp
  have eq': "h_conv p = max 5 x"
    by (simp add: eq x_def)
  show "5 \<le> h_conv p" unfolding eq' by simp
  show "h_conv p \<le> 50.45" unfolding eq' using x by simp
qed

lemma solar_magnitude:
  assumes "valid_parameters p" "i < nat (ny p)" "j < nat (nx p)"
  shows "0 \<le> compute_solar_absorption p ! i ! j" and "compute_solar_absorption p ! i ! j \<le> 11.76"
proof -
  from solar_cell_sign(1) [OF assms(2,3) valid_irradiance [OF assms(1)]]
  have Q: "0 \<le> compute_solar_absorption p ! i ! j"
    "compute_solar_absorption p ! i ! j \<le> solar_irradiance p * absorptivity p * 0.01"
    by simp_all
  show "0 \<le> compute_solar_absorption p ! i ! j" by (rule Q(1))
  have "solar_irradiance p * absorptivity p \<le> 1200 * 0.98"
    using assms(1) by (intro mult_mono) (simp_all add: valid_parameters_def)
  with Q(2) show "compute_solar_absorption p ! i ! j \<le> 11.76" by simp
qed

lemma convective_magnitude:
  assumes v: "valid_parameters p" and t: "200 \<le> t" "t \<le> 450"
  shows "\<bar>h_conv p * cell_area * (t - ambient_temperature p)\<bar> \<le> 85.765"
proof -
  from v have w: "0 \<le> wind_speed p" "wind_speed p \<le> 10"
    and a: "280 \<le> ambient_temperature p" "ambient_temperature p \<le> 330"
    by (simp_all add: valid_parameters_def)
  note h = h_conv_bounds [OF w]
  have d: "\<bar>t - ambient_temperature p\<bar> \<le> 170"
    using t a by simp
  have "\<bar>h_conv p * cell_area * (t - ambient_temperature p)\<bar>
      = h_conv p * 0.01 * \<bar>t - ambient_temperature p\<bar>"
    using h(1) by (simp add: abs_mult cell_area_def)
  also have "\<dots> \<le> 50.45 * 0.01 * 170"
    using h d by (intro mult_mono) simp_all
  finally show ?thesis by simp
qed

lemma radiative_magnitude:
  assumes v: "valid_parameters p" and t: "200 \<le> t" "t \<le> 450"
  shows "\<bar>emissivity p * STEFAN_BOLTZMANN * cell_area * (t ^ 4 - (ambient_temperature p - 10) ^ 4)\<bar> \<le> 23"
proof -
  from v have e: "0.80 \<le> emissivity p" "emissivity p \<le> 0.95"
    and a: "280 \<le> ambient_temperature p" "ambient_temperature p \<le> 330"
    by (simp_all add: valid_parameters_def)
  define A where "A = t ^ 4"
  define B where "B = (ambient_temperature p - 10) ^ 4"
  have "t ^ 4 \<le> 450 ^ 4"
    using t by (intro power_mono) simp_all
  then have A: "A \<le> 41006250000" "0 \<le> A"
    by (simp_all add: A_def)
  have "(ambient_temperature p - 10) ^ 4 \<le> 450 ^ 4"
    using a by (intro power_mono) simp_all
  then have B: "B \<le> 41006250000" "0 \<le> B"
    by (simp_all add: B_def)
  from A B have "\<bar>A - B\<bar> \<le> 41006250000"
    by linarith
  then have d: "\<bar>t ^ 4 - (ambient_temperature p - 10) ^ 4\<bar> \<le> 41006250000"
    by (simp only: A_def B_def)
  have "\<bar>emissivity p * STEFAN_BOLTZMANN * cell_area * (t ^ 4 - (ambient_temperature p - 10) ^ 4)\<bar>
      = emissivity p * (5.67 / 10 ^ 10) * \<bar>t ^ 4 - (ambient_temperature p - 10) ^ 4\<bar>"
    using e(1) by (simp add: abs_mult cell_area_def STEFAN_BOLTZMANN_def)
  also have "\<dots> \<le> 0.95 * (5.67 / 10 ^ 10) * 41006250000"
    using e d by (intro mult_mono) simp_all
  finally show ?thesis by simp
qed

lemma neighbour_laplacian_magnitude:
  assumes sh: "shape m n T" and b: "all_cells (\<lambda>t. 200 \<le> t \<and> t \<le> 450) T"
    and i: "i < m" and j: "j < n"
  shows "\<bar>neighbour_laplacian T i j\<bar> \<le> 100000"
proof -
  have len: "length T = m" "length (T ! i) = n"
    using sh i by (simp_all add: shape_def)
  have cell: "200 \<le> T ! a ! c \<and> T ! a ! c \<le> 450" if "a < m" "c < n" for a c
    using b that by (simp add: all_cells_nth [OF sh])
  define e where "e = T ! i ! (if j + 1 < n then j + 1 else j)"
  define w where "w = T ! i ! (if 0 < j then j - 1 else j)"
  define s where "s = T ! (if i + 1 < m then i + 1 else i) ! j"
  define u where "u = T ! (if 0 < i then i - 1 else i) ! j"
  define c where "c = T ! i ! j"
  have be: "200 \<le> e \<and> e \<le> 450" unfolding e_def using i j by (intro cell) simp_all
  have bw: "200 \<le> w \<and> w \<le> 450" unfolding w_def using i j by (intro cell) auto
  have bs: "200 \<le> s \<and> s \<le> 450" unfolding s_def using i j by (intro cell) simp_all
  have bu: "200 \<le> u \<and> u \<le> 450" unfolding u_def using i j by (intro cell) auto
  have bc: "200 \<le> c \<and> c \<le> 450" unfolding c_def using i j by (intro cell) simp_all
  have eq: "neighbour_laplacian T i j = 100 * (e - 2 * c + w) + 100 * (s - 2 * c + u)"
    by (simp add: neighbour_laplacian_def Let_def len e_def w_def s_def u_def c_def dx_def dy_def
        power2_eq_square)
  show ?thesis
    unfolding eq abs_le_iff using be bw bs bu bc by auto
qed

lemma conduction_magnitude:
  assumes v: "valid_parameters p" and sh: "shape (nat (ny p)) (nat (nx p)) T"
    and b: "all_cells (\<lambda>t. 200 \<le> t \<and> t \<le> 450) T"
    and ij: "i < nat (ny p)" "j < nat (nx p)"
  shows "\<bar>conduction_field p T ! i ! j\<bar> \<le> 20000"
proof -
  from v have k: "100 \<le> thermal_conductivity p" "thermal_conductivity p \<le> 200"
    by (simp_all add: valid_parameters_def)
  have dims: "0 < nat (ny p)" "0 < nat (nx p)"
    using valid_dims [OF v] by simp_all
  have L: "\<bar>neighbour_laplacian T i j\<bar> \<le> 100000"
    using sh b ij by (rule neighbour_laplacian_magnitude)
  have "conduction_field p T ! i ! j =
     thermal_conductivity p / (2330 * 700) * neighbour_laplacian T i j * 2330 * 700 * cell_area * dx"
    using sh dims ij by (rule conduction_field_cell)
  also have "\<dots> = thermal_conductivity p * neighbour_laplacian T i j * 0.001"
    by (simp add: cell_area_def dx_def)
  finally have eq: "conduction_field p T ! i ! j
      = thermal_conductivity p * neighbour_laplacian T i j * 0.001" .
  have "\<bar>thermal_conductivity p * neighbour_laplacian T i j * 0.001\<bar>
      = thermal_conductivity p * \<bar>neighbour_laplacian T i j\<bar> * 0.001"
    using k(1) by (simp add: abs_mult)
  also have "\<dots> \<le> 200 * 100000 * 0.001"
    using k L by (intro mult_mono) simp_all
  finally show ?thesis unfolding eq by simp
qed

lemma flux_magnitude:
  assumes v: "valid_parameters p" and sh: "shape (nat (ny p)) (nat (nx p)) T"
    and b: "all_cells (\<lambda>t. 200 \<le> t \<and> t \<le> 450) T"
    and ij: "i < nat (ny p)" "j < nat (nx p)"
  shows "\<bar>net_flux p T ! i ! j\<bar> \<le> 20200"
proof -
  from v have e: "0.10 \<le> cell_efficiency p" "cell_efficiency p \<le> 0.30"
    by (simp_all add: valid_parameters_def)
  have t: "200 \<le> T ! i ! j" "T ! i ! j \<le> 450"
    using b ij by (simp_all add: all_cells_nth [OF sh])
  note Qs = solar_magnitude [OF v ij]
  have "(1 - cell_efficiency p) * compute_solar_absorption p ! i ! j \<le> 1 * 11.76"
    using e Qs by (intro mult_mono) simp_all
  moreover have "0 \<le> (1 - cell_efficiency p) * compute_solar_absorption p ! i ! j"
    using e Qs by simp
  ultimately have a: "\<bar>(1 - cell_efficiency p) * compute_solar_absorption p ! i ! j\<bar> \<le> 12"
    by simp
  have c: "\<bar>compute_convective_cooling p T ! i ! j\<bar> \<le> 86"
    using convective_magnitude [OF v t] by (simp add: convective_cell [OF sh ij])
  have r: "\<bar>compute_radiative_cooling p T ! i ! j\<bar> \<le> 23"
    using radiative_magnitude [OF v t] by (simp add: radiative_cell [OF sh ij])
  have k: "\<bar>conduction_field p T ! i ! j\<bar> \<le> 20000"
    using v sh b ij by (rule conduction_magnitude)
  have "net_flux p T ! i ! j =
     (1 - cell_efficiency p) * compute_solar_absorption p ! i ! j
     - compute_convective_cooling p T ! i ! j
     - compute_radiative_cooling p T ! i ! j
     + conduction_field p T ! i ! j"
    using sh valid_dims(2,1) [OF v] ij by (rule net_flux_cell)
  with a c r k show ?thesis by linarith
qed

text \<open>
  On valid parameters and temperatures between 200 and 450, the net flux of every cell is
  at most 20200 in absolute value, and so are the four terms it is made of: the quantities
  of a pass of the time loop are far from the range where a float overflows.
\<close>

lemma flux_magnitude_in_every_pass:
  assumes v: "valid_parameters p"
  shows "\<exists>s0. SimplifiedPhysicsSolver_init p = Inr s0 \<and>
     (\<forall>k. \<exists>s. time_integration k s0 = Inr s \<and>
        (\<forall>i < nat (ny p). \<forall>j < nat (nx p). \<bar>net_flux p (temperature s) ! i ! j\<bar> \<le> 20200))"
proof -
  let ?I = "\<lambda>s. all_cells (\<lambda>t. 200 \<le> t \<and> t \<le> 450) (temperature s)"
  note dims = valid_dims [OF v]
  from init_ok [of p] dims obtain s0 where
    s0: "SimplifiedPhysicsSolver_init p = Inr s0" "solver_ok p s0"
      "temperature s0 = full (nat (ny p)) (nat (nx p)) (ambient_temperature p)"
    by auto
  have I0: "?I s0"
    using valid_in_range [OF v] by (simp add: s0(3) in_range_ambient_bounds)
  have step: "\<And>s. solver_ok p s \<Longrightarrow> ?I s \<Longrightarrow> ?I (stepped s)"
    by (rule stepped_bounds)
  have "\<exists>s. time_integration k s0 = Inr s \<and>
        (\<forall>i < nat (ny p). \<forall>j < nat (nx p). \<bar>net_flux p (temperature s) ! i ! j\<bar> \<le> 20200)" for k
  proof -
    from time_integration_invariant [OF s0(2) dims(2,1), of ?I k, OF I0 step]
    obtain s where s: "time_integration k s0 = Inr s" "solver_ok p s" "?I s" by blast
    from s(2) have sh: "shape (nat (ny p)) (nat (nx p)) (temperature s)"
      by (simp add: solver_ok_def)
    from flux_magnitude [OF v sh s(3)] s(1) show ?thesis by blast
  qed
  with s0(1) show ?thesis by blast
qed

text \<open>
  C1: for valid parameters (a grid with cells and every physical field in its documented
  range) the solver is built, every number of passes of the time loop returns a state
  whose temperature cells all lie in the closed interval from 200 to 450, and
  \<^verbatim>\<open>run_simulation\<close> returns a summary whose \<open>temperature_field\<close> lies in that interval
  too, whatever \<open>n_steps\<close> is.
\<close>

theorem temperature_within_safety_interval:
  assumes "valid_parameters p"
  shows "\<exists>s0. SimplifiedPhysicsSolver_init p = Inr s0 \<and>
     (\<forall>k. \<exists>s. time_integration k s0 = Inr s \<and>
        all_cells (\<lambda>t. 200 \<le> t \<and> t \<le> 450) (temperature s)) \<and>
     (\<exists>r. run_simulation s0 t0 t1 = Inr r \<and>
        all_cells (\<lambda>t. 200 \<le> t \<and> t \<le> 450) (temperature_field r))"
proof -
  let ?I = "\<lambda>s. all_cells (\<lambda>t. 200 \<le> t \<and> t \<le> 450) (temperature s)"
  note dims = valid_dims [OF assms]
  from init_ok [of p] dims obtain s0 where
    s0: "SimplifiedPhysicsSolver_init p = Inr s0" "solver_ok p s0"
      "temperature s0 = full (nat (ny p)) (nat (nx p)) (ambient_temperature p)"
    by auto
  have I0: "?I s0"
    using valid_in_range [OF assms] by (simp add: s0(3) in_range_ambient_bounds)
  have step: "\<And>s. solver_ok p s \<Longrightarrow> ?I s \<Longrightarrow> ?I (stepped s)"
    by (rule stepped_bounds)
  have "\<exists>s. time_integration k s0 = Inr s \<and> ?I s" for k
    using time_integration_invariant [OF s0(2) dims(2,1), of ?I k, OF I0 step] by blast
  moreover have "\<exists>r. run_simulation s0 t0 t1 = Inr r \<and>
        all_cells (\<lambda>t. 200 \<le> t \<and> t \<le> 450) (temperature_field r)"
    using run_simulation_ok [OF s0(2) dims(2,1), of ?I t0 t1, OF I0 step] by auto
  ultimately show ?thesis using s0(1) by blast
qed

theorem temperature_within_safety_interval_witness:
  "valid_parameters SimulationParameters_default \<and>
   (\<exists>s0. SimplifiedPhysicsSolver_init SimulationParameters_default = Inr s0 \<and>
     (\<forall>k. \<exists>s. time_integration k s0 = Inr s \<and>
        all_cells (\<lambda>t. 200 \<le> t \<and> t \<le> 450) (temperature s)) \<and>
     (\<exists>r. run_simulation s0 0 1 = Inr r \<and>
        all_cells (\<lambda>t. 200 \<le> t \<and> t \<le> 450) (temperature_field r)))"
  using temperature_within_safety_interval [OF default_valid, of 0 1] default_valid by simp

text \<open>
  C6: for valid parameters every cell of the power array is non-negative after every number
  of passes of the time loop and in the \<open>power_field\<close> of the summary.
\<close>

theorem power_nonnegative:
  assumes "valid_parameters p"
  shows "\<exists>s0. SimplifiedPhysicsSolver_init p = Inr s0 \<and>
     (\<forall>k. \<exists>s. time_integration k s0 = Inr s \<and> all_cells (\<lambda>q. 0 \<le> q) (power_generation s)) \<and>
     (\<exists>r. run_simulation s0 t0 t1 = Inr r \<and> all_cells (\<lambda>q. 0 \<le> q) (power_field r))"
proof (rule power_invariant)
  show q: "0 \<le> solar_irradiance p * absorptivity p"
    using assms by (rule valid_irradiance)
  show "all_cells (\<lambda>q. 0 \<le> q) (full (nat (ny p)) (nat (nx p)) 0)"
    by (simp add: all_cells_full)
  show "all_cells (\<lambda>q. 0 \<le> q) (compute_electrical_generation p T)"
    if "shape (nat (ny p)) (nat (nx p)) T" for T
    using that q by (rule electrical_all_cells(1))
qed (use valid_dims [OF assms] in simp_all)

theorem power_nonnegative_witness:
  "valid_parameters SimulationParameters_default \<and>
   (\<exists>s0. SimplifiedPhysicsSolver_init SimulationParameters_default = Inr s0 \<and>
     (\<forall>k. \<exists>s. time_integration k s0 = Inr s \<and> all_cells (\<lambda>q. 0 \<le> q) (power_generation s)) \<and>
     (\<exists>r. run_simulation s0 0 1 = Inr r \<and> all_cells (\<lambda>q. 0 \<le> q) (power_field r)))"
  using power_nonnegative [OF default_valid, of 0 1] default_valid by simp

text \<open>
  C10: for valid parameters every cell of the power array is at most
  \<open>0.30 * solar_irradiance * absorptivity * 0.01\<close>, after every number of passes of the
  time loop and in the summary.
\<close>

theorem power_upper_bound:
  assumes "valid_parameters p"
  shows "\<exists>s0. SimplifiedPhysicsSolver_init p = Inr s0 \<and>
     (\<forall>k. \<exists>s. time_integration k s0 = Inr s \<and>
        all_cells (\<lambda>q. q \<le> 0.30 * solar_irradiance p * absorptivity p * 0.01) (power_generation s)) \<and>
     (\<exists>r. run_simulation s0 t0 t1 = Inr r \<and>
        all_cells (\<lambda>q. q \<le> 0.30 * solar_irradiance p * absorptivity p * 0.01) (power_field r))"
proof (rule power_invariant)
  show q: "0 \<le> solar_irradiance p * absorptivity p"
    using assms by (rule valid_irradiance)
  have "0 \<le> 0.30 * (solar_irradiance p * absorptivity p) * 0.01"
    using q by simp
  then show "all_cells (\<lambda>q. q \<le> 0.30 * solar_irradiance p * absorptivity p * 0.01)
      (full (nat (ny p)) (nat (nx p)) 0)"
    by (intro all_cells_full) (simp add: mult.assoc)
  show "all_cells (\<lambda>q. q \<le> 0.30 * solar_irradiance p * absorptivity p * 0.01)
      (compute_electrical_generation p T)"
    if "shape (nat (ny p)) (nat (nx p)) T" for T
    using that q by (rule electrical_all_cells(2))
qed (use valid_dims [OF assms] in simp_all)

theorem power_upper_bound_witness:
  "valid_parameters SimulationParameters_default \<and>
   (\<exists>s0. SimplifiedPhysicsSolver_init SimulationParameters_default = Inr s0 \<and>
     (\<forall>k. \<exists>s. time_integration k s0 = Inr s \<and> all_cells (\<lambda>q. q \<le> 2.85) (power_generation s)) \<and>
     (\<exists>r. run_simulation s0 0 1 = Inr r \<and> all_cells (\<lambda>q. q \<le> 2.85) (power_field r)))"
proof -
  have b: "0.30 * solar_irradiance SimulationParameters_default
      * absorptivity SimulationParameters_default * 0.01 = 2.85"
    by (simp add: SimulationParameters_default_def SimulationParameters_init_def)
  from power_upper_bound [OF default_valid, of 0 1] default_valid
  show ?thesis unfolding b by simp
qed

end
